theory Spec2Isabelle
  imports Main "HOL-Library.Sublist"
begin

section \<open>Go standard-library functions called by the repository job\<close>

text \<open>
  Strings are byte lists, as in Go. Only the library calls that occur in the job are
  given, each with the behaviour its Go documentation states.
\<close>

type_synonym path = string
type_synonym error = string

definition strings_HasSuffix :: "string \<Rightarrow> string \<Rightarrow> bool" where
  "strings_HasSuffix s suf = suffix suf s"

definition strings_HasPrefix :: "string \<Rightarrow> string \<Rightarrow> bool" where
  "strings_HasPrefix s pre = prefix pre s"

text \<open>\<^verbatim>\<open>strings.Replace(s, old, new, 1)\<close>: the first occurrence only; an empty
  \<open>old\<close> matches at the start of the string.\<close>

fun strings_Replace1 :: "string \<Rightarrow> string \<Rightarrow> string \<Rightarrow> string" where
  "strings_Replace1 [] old new = (if old = [] then new else [])"
| "strings_Replace1 (c # cs) old new =
     (if prefix old (c # cs) then new @ drop (length old) (c # cs)
      else c # strings_Replace1 cs old new)"

text \<open>\<^verbatim>\<open>strings.Replace(s, old, new, -1)\<close>: every non-overlapping occurrence, from
  the left; an empty \<open>old\<close> matches before every byte and at the end.\<close>

function strings_ReplaceAll :: "string \<Rightarrow> string \<Rightarrow> string \<Rightarrow> string" where
  "strings_ReplaceAll [] old new = (if old = [] then new else [])"
| "strings_ReplaceAll (c # cs) old new =
     (if old = [] then new @ c # strings_ReplaceAll cs old new
      else if prefix old (c # cs)
           then new @ strings_ReplaceAll (drop (length old) (c # cs)) old new
           else c # strings_ReplaceAll cs old new)"
  by pat_completeness auto
termination
  by (relation "measure (\<lambda>(s, old, new). length s)") (auto simp: neq_Nil_conv)

fun strings_Join :: "string list \<Rightarrow> string \<Rightarrow> string" where
  "strings_Join [] sep = []"
| "strings_Join [x] sep = x"
| "strings_Join (x # y # ys) sep = x @ sep @ strings_Join (y # ys) sep"

definition strings_Trim :: "string \<Rightarrow> string \<Rightarrow> string" where
  "strings_Trim s cutset =
     rev (dropWhile (\<lambda>c. c \<in> set cutset) (rev (dropWhile (\<lambda>c. c \<in> set cutset) s)))"

text \<open>\<^verbatim>\<open>fmt.Sprintln(a, b)\<close> on two strings: a space between the operands and a
  newline at the end.\<close>

definition fmt_Sprintln2 :: "string \<Rightarrow> string \<Rightarrow> string" where
  "fmt_Sprintln2 a b = a @ '' '' @ b @ [CHR 0x0A]"

text \<open>\<^verbatim>\<open>errors.Wrap(err, msg)\<close> of pkg/errors: the message is prefixed.\<close>

definition errors_Wrap :: "error \<Rightarrow> string \<Rightarrow> error" where
  "errors_Wrap e msg = msg @ '': '' @ e"

subsection \<open>Package path/filepath (Unix separator)\<close>

fun split_slash :: "string \<Rightarrow> string list" where
  "split_slash [] = [[]]"
| "split_slash (c # cs) =
     (if c = CHR ''/'' then [] # split_slash cs
      else (case split_slash cs of [] \<Rightarrow> [[c]] | x # xs \<Rightarrow> (c # x) # xs))"

definition clean_push :: "bool \<Rightarrow> string list \<Rightarrow> string \<Rightarrow> string list" where
  "clean_push rooted stack el =
     (if el = [] \<or> el = ''.'' then stack
      else if el = ''..'' then
        (if stack \<noteq> [] \<and> last stack \<noteq> ''..'' then butlast stack
         else if rooted then stack
         else stack @ [''..''])
      else stack @ [el])"

definition filepath_Clean :: "path \<Rightarrow> path" where
  "filepath_Clean p =
     (let rooted = prefix ''/'' p;
          body = strings_Join (foldl (clean_push rooted) [] (split_slash p)) ''/'';
          r = (if rooted then ''/'' @ body else body)
      in if r = [] then ''.'' else r)"

text \<open>\<^verbatim>\<open>filepath.Join\<close> of two elements: the elements from the first non-empty one
  on are joined with the separator and cleaned; two empty elements give the empty path.\<close>

definition filepath_Join :: "path \<Rightarrow> path \<Rightarrow> path" where
  "filepath_Join a b =
     (if a \<noteq> [] then filepath_Clean (a @ ''/'' @ b)
      else if b \<noteq> [] then filepath_Clean b
      else [])"

definition filepath_Base :: "path \<Rightarrow> path" where
  "filepath_Base p =
     (if p = [] then ''.''
      else (let stripped = rev (dropWhile (\<lambda>c. c = CHR ''/'') (rev p));
                b = rev (takeWhile (\<lambda>c. c \<noteq> CHR ''/'') (rev stripped))
            in if b = [] then ''/'' else b))"

definition filepath_Dir :: "path \<Rightarrow> path" where
  "filepath_Dir p = filepath_Clean (rev (dropWhile (\<lambda>c. c \<noteq> CHR ''/'') (rev p)))"

section \<open>Data model of the job\<close>

text \<open>
  The format tag is a string type in Go. Modelled from the spec: the declaration of
  \<^verbatim>\<open>RepoType\<close> and of its two constants is not among the sources; the spec names
  the two formats DEB and RPM, and any other string is an unsupported format.
\<close>

type_synonym RepoType = string

definition DEB :: RepoType where "DEB = ''deb''"
definition RPM :: RepoType where "RPM = ''rpm''"

text \<open>The fields of the distro definition and of the configuration that the job reads.\<close>

record RepositoryDefinition =
  Name :: string
  Type :: RepoType
  Bucket :: string
  Region :: string
  Repos :: "string list"

record RepositoryConfig =
  WorkSpace :: string
  DryRun :: bool
  Verbose :: bool
  NotaryURL :: string

text \<open>
  \<^verbatim>\<open>bond.MongoDBVersion\<close> is a library value; the job only calls the accessors
  below, so a release is the record of what they return.
\<close>

record MongoDBVersion =
  VersionString :: string
  Series :: string
  StableReleaseSeries :: string
  IsDevelopmentBuild :: bool
  IsReleaseCandidate :: bool
  IsDevelopmentSeries :: bool

text \<open>The two implementations of \<^verbatim>\<open>jobImpl\<close> that \<^verbatim>\<open>setup\<close> can install.\<close>

datatype jobImpl = DebBuilder | RpmBuilder

text \<open>
  \<^verbatim>\<open>repoBuilderJob\<close>. \<open>Distro\<close> is a pointer that \<^verbatim>\<open>setup\<close> tests for nil,
  and \<open>builder\<close> an interface value that is nil until \<^verbatim>\<open>setup\<close> succeeds, so both
  are options. \<open>Conf\<close> and \<open>release\<close> are set by the constructor
  \<^verbatim>\<open>NewBuildRepoJob\<close> and are taken as present. Of the embedded \<^verbatim>\<open>job.Base\<close>
  the record keeps the error accumulator and the completion flag.
\<close>

record repoBuilderJob =
  Distro :: "RepositoryDefinition option"
  Conf :: RepositoryConfig
  Output :: "string \<rightharpoonup> string"
  Version :: string
  Arch :: string
  Profile :: string
  PackagePaths :: "string list"
  workingDirs :: "string list"
  release :: MongoDBVersion
  builder :: "jobImpl option"
  Errors :: "error list"
  Completed :: bool

section \<open>The world outside the job\<close>

record S3Options =
  opt_Region :: string
  opt_SharedCredentialsProfile :: string
  opt_Name :: string
  opt_DryRun :: bool
  opt_Verbose :: bool
  opt_UseSingleFileChecksums :: bool
  opt_Permissions :: string
  opt_MaxRetries :: nat

text \<open>Every call that can change the file system, start a process or reach the object
  store is recorded, in order, with its arguments.\<close>

datatype event =
    EMkdirAll path
  | ERemove path
  | ERename path path
  | ELink path path
  | EExec "string list" path
  | ENewS3Bucket S3Options
  | EPull path path
  | EPush path path
  | EInjectPackage path string
  | ERebuildRepo path
  | EMarkComplete

datatype level = Debug | Info | Notice | Warning | Alert | Critical

type_synonym logmsg = "level \<times> (string \<times> string) list"

text \<open>
  The operating system, the signer process, the object store and the two format
  builders are parameters: each operation maps the world to a result and a new world.
  \<open>os_StatNotExist\<close> is \<^verbatim>\<open>os.IsNotExist\<close> of the error of \<^verbatim>\<open>os.Stat\<close>.
  \<open>signedBeforeResolve\<close> is the schedule of the signing goroutines: whether the signer
  started for a file finishes before \<^verbatim>\<open>linkPackages\<close> evaluates its result.
  Two texts are produced by library code that prints internal values and are parameters
  as well: \<open>fmt_bucket\<close> is what \<^verbatim>\<open>%s\<close> prints for the bucket value made from the
  options, and \<open>catcher_String\<close> is the text grip's catcher makes of the errors it holds
  (each one printed with \<^verbatim>\<open>%+v\<close>).
\<close>

record 'w ops =
  os_Getenv :: "'w \<Rightarrow> string \<Rightarrow> string"
  os_StatNotExist :: "'w \<Rightarrow> path \<Rightarrow> bool"
  os_MkdirAll :: "path \<Rightarrow> 'w \<Rightarrow> error option \<times> 'w"
  os_Remove :: "path \<Rightarrow> 'w \<Rightarrow> error option \<times> 'w"
  os_Rename :: "path \<Rightarrow> path \<Rightarrow> 'w \<Rightarrow> error option \<times> 'w"
  os_Link :: "path \<Rightarrow> path \<Rightarrow> 'w \<Rightarrow> error option \<times> 'w"
  exec_CombinedOutput :: "string list \<Rightarrow> path \<Rightarrow> 'w \<Rightarrow> (string \<times> error option) \<times> 'w"
  pail_NewS3Bucket :: "S3Options \<Rightarrow> 'w \<Rightarrow> error option \<times> 'w"
  bucket_Pull :: "path \<Rightarrow> path \<Rightarrow> 'w \<Rightarrow> error option \<times> 'w"
  bucket_Push :: "path \<Rightarrow> path \<Rightarrow> 'w \<Rightarrow> error option \<times> 'w"
  impl_injectPackage :: "jobImpl \<Rightarrow> path \<Rightarrow> string \<Rightarrow> 'w \<Rightarrow> (error + path) \<times> 'w"
  impl_rebuildRepo :: "jobImpl \<Rightarrow> path \<Rightarrow> 'w \<Rightarrow> error option \<times> 'w"
  signedBeforeResolve :: "path \<Rightarrow> bool"
  fmt_bucket :: "S3Options \<Rightarrow> string"
  catcher_String :: "error list \<Rightarrow> string"

text \<open>The state a method of the job runs in: the job itself (the receiver), the world,
  the calls made so far and the messages handed to the logger.\<close>

record 'w state =
  job :: repoBuilderJob
  world :: 'w
  trace :: "event list"
  logs :: "logmsg list"

datatype 'a outcome = Return 'a | Panic

definition perform :: "event \<Rightarrow> ('w \<Rightarrow> 'r \<times> 'w) \<Rightarrow> 'w state \<Rightarrow> 'r \<times> 'w state" where
  "perform ev f s =
     (case f (world s) of (r, w') \<Rightarrow> (r, s\<lparr>world := w', trace := trace s @ [ev]\<rparr>))"

definition grip_log :: "level \<Rightarrow> (string \<times> string) list \<Rightarrow> 'w state \<Rightarrow> 'w state" where
  "grip_log l fs s = s\<lparr>logs := logs s @ [(l, fs)]\<rparr>"

text \<open>\<^verbatim>\<open>grip.AlertWhen\<close>, \<^verbatim>\<open>grip.CriticalWhen\<close>: logged when the condition holds.\<close>

definition grip_logWhen :: "bool \<Rightarrow> level \<Rightarrow> (string \<times> string) list \<Rightarrow> 'w state \<Rightarrow> 'w state" where
  "grip_logWhen c l fs s = (if c then grip_log l fs s else s)"

text \<open>\<^verbatim>\<open>grip.Warning(message.WrapError(err, fields))\<close>: logged when the error is not
  nil, with the error added to the fields.\<close>

definition grip_WrapError :: "level \<Rightarrow> error option \<Rightarrow> (string \<times> string) list \<Rightarrow> 'w state \<Rightarrow> 'w state" where
  "grip_WrapError l err fs s =
     (case err of None \<Rightarrow> s | Some e \<Rightarrow> grip_log l ((''error'', e) # fs) s)"

text \<open>\<^verbatim>\<open>job.Base.AddError\<close> and \<^verbatim>\<open>job.Base.MarkComplete\<close>.\<close>

definition AddError :: "error \<Rightarrow> 'w state \<Rightarrow> 'w state" where
  "AddError e s = s\<lparr>job := (job s)\<lparr>Errors := Errors (job s) @ [e]\<rparr>\<rparr>"

definition MarkComplete :: "'w state \<Rightarrow> 'w state" where
  "MarkComplete s = s\<lparr>job := (job s)\<lparr>Completed := True\<rparr>, trace := trace s @ [EMarkComplete]\<rparr>"

section \<open>The job's methods\<close>

text \<open>
  Log records keep the fields that vary with the call; the identity fields
  \<^verbatim>\<open>job_id\<close> and \<^verbatim>\<open>job_scope\<close>, which every record repeats, are left out.
\<close>

subsection \<open>getPackageLocation\<close>

definition getPackageLocation :: "repoBuilderJob \<Rightarrow> string" where
  "getPackageLocation j =
     (if IsDevelopmentBuild (release j) then ''development''
      else if IsReleaseCandidate (release j) then ''testing''
      else Series (release j))"

subsection \<open>signFile\<close>

text \<open>The key name and the auth token, as the first lines of \<^verbatim>\<open>signFile\<close> choose
  them. \<^verbatim>\<open>j.Distro.Type\<close> is read only when no key name is set in the environment;
  a nil distro panics there.\<close>

definition notaryKeyAndToken :: "'w ops \<Rightarrow> 'w state \<Rightarrow> (string \<times> string) outcome" where
  "notaryKeyAndToken ops s =
     (let keyName = os_Getenv ops (world s) ''NOTARY_KEY_NAME'';
          token = os_Getenv ops (world s) ''NOTARY_TOKEN''
      in if keyName = [] then
           (case Distro (job s) of
              None \<Rightarrow> Panic
            | Some d \<Rightarrow>
                if Type d = DEB \<and>
                   (Series (release (job s)) = ''3.0'' \<or> Series (release (job s)) = ''2.6'')
                then Return (''richard'', os_Getenv ops (world s) ''NOTARY_TOKEN_DEB_LEGACY'')
                else Return (''server-'' @ StableReleaseSeries (release (job s)), token))
         else Return (keyName, token))"

definition missingTokenError :: error where
  "missingTokenError =
     fmt_Sprintln2 ''the notary service auth token''
       ''(NOTARY_TOKEN) is not defined in the environment''"

definition notaryArgs :: "repoBuilderJob \<Rightarrow> string \<Rightarrow> string \<Rightarrow> string \<Rightarrow> string list" where
  "notaryArgs j keyName token archiveExtension =
     [''notary-client.py'',
      ''--key-name'', keyName,
      ''--auth-token'', token,
      ''--comment'', [CHR 0x22] @ ''curator package signing'' @ [CHR 0x22],
      ''--notary-url'', NotaryURL (Conf j),
      ''--archive-file-ext'', archiveExtension,
      ''--outputs'', ''sig'']"

definition logContext :: "RepositoryDefinition \<Rightarrow> 'w state \<Rightarrow> (string \<times> string) list" where
  "logContext d s = [(''repo'', Name d), (''version'', VersionString (release (job s)))]"

text \<open>Lines 263-282: the two conditional alerts about the archive extension.\<close>

definition extensionAlerts :: "RepositoryDefinition \<Rightarrow> string \<Rightarrow> bool \<Rightarrow> 'w state \<Rightarrow> 'w state" where
  "extensionAlerts d archiveExtension overwrite s =
     grip_logWhen (overwrite \<and> length archiveExtension \<noteq> 0) Critical
       (logContext d s @
        [(''extension'', archiveExtension),
         (''message'', ''specified overwrite with an archive extension''),
         (''impact'', ''no package impact'')])
       (grip_logWhen (strings_HasPrefix archiveExtension ''.'') Alert
          (logContext d s @
           [(''extension'', archiveExtension),
            (''message'', ''extension has leading dot, which is ususally problem'')]) s)"

text \<open>Lines 284-300: with \<open>overwrite\<close> the empty package-file suffix is appended to the
  arguments; without it the old signature file is removed first, and a failure to
  remove it is only logged.\<close>

definition overwriteOrRemove ::
  "'w ops \<Rightarrow> RepositoryDefinition \<Rightarrow> path \<Rightarrow> string \<Rightarrow> bool \<Rightarrow> string list \<Rightarrow> 'w state \<Rightarrow>
   string list \<times> 'w state" where
  "overwriteOrRemove ops d fileName archiveExtension overwrite args s =
     (if overwrite then (args @ [''--package-file-suffix'', []], s)
      else (case perform (ERemove (fileName @ ''.'' @ archiveExtension))
                   (os_Remove ops (fileName @ ''.'' @ archiveExtension)) s of
              (rerr, s') \<Rightarrow>
                (args,
                 grip_WrapError Warning rerr
                   (logContext d s @
                    [(''mesage'', ''problem removing file''),
                     (''filename'', fileName @ ''.'' @ archiveExtension)]) s')))"

text \<open>Lines 302-342: the command is logged with the token replaced, run in the
  directory of the file, and its trimmed output goes into the log record of the
  result.\<close>

definition invokeNotaryClient ::
  "'w ops \<Rightarrow> RepositoryDefinition \<Rightarrow> string \<Rightarrow> path \<Rightarrow> string list \<Rightarrow> 'w state \<Rightarrow>
   error option \<times> 'w state" where
  "invokeNotaryClient ops d token fileName args s =
     (case perform (EExec args (filepath_Dir fileName))
             (exec_CombinedOutput ops args (filepath_Dir fileName))
             (grip_log Info
                (logContext d s @
                 [(''message'', ''running notary-client command''),
                  (''cmd'', strings_ReplaceAll (strings_Join args '' '') token ''XXXXX'')]) s) of
        ((out, err), s') \<Rightarrow>
          (case err of
             Some e \<Rightarrow>
               (Some (errors_Wrap e ''problem with notary service client signing file''),
                grip_WrapError Warning (Some e)
                  (logContext d s @
                   [(''message'', ''error signing file''), (''path'', fileName),
                    (''output'', strings_Trim out ('' '' @ [CHR 0x0A, CHR 0x09]))]) s')
           | None \<Rightarrow>
               (None,
                grip_log Info
                  (logContext d s @
                   [(''message'', ''signed file''), (''path'', fileName),
                    (''output'', strings_Trim out ('' '' @ [CHR 0x0A, CHR 0x09]))]) s')))"

text \<open>The part of \<^verbatim>\<open>signFile\<close> after the token check (lines 253-342).\<close>

definition runNotaryClient ::
  "'w ops \<Rightarrow> RepositoryDefinition \<Rightarrow> string \<Rightarrow> string \<Rightarrow> path \<Rightarrow> string \<Rightarrow> bool \<Rightarrow>
   'w state \<Rightarrow> error option \<times> 'w state" where
  "runNotaryClient ops d keyName token fileName archiveExtension overwrite s =
     (case overwriteOrRemove ops d fileName archiveExtension overwrite
             (notaryArgs (job s) keyName token archiveExtension)
             (extensionAlerts d archiveExtension overwrite s) of
        (args, s') \<Rightarrow>
          invokeNotaryClient ops d token fileName (args @ [filepath_Base fileName]) s')"

text \<open>\<^verbatim>\<open>signFile\<close>. A missing token returns before the log fields
  (\<^verbatim>\<open>j.Distro.Name\<close>) are built; with a token, a nil distro panics there.\<close>

definition signFile ::
  "'w ops \<Rightarrow> path \<Rightarrow> string \<Rightarrow> bool \<Rightarrow> 'w state \<Rightarrow> error option outcome \<times> 'w state" where
  "signFile ops fileName archiveExtension overwrite s =
     (case notaryKeyAndToken ops s of
        Panic \<Rightarrow> (Panic, s)
      | Return (keyName, token) \<Rightarrow>
          if token = [] then (Return (Some missingTokenError), s)
          else (case Distro (job s) of
                  None \<Rightarrow> (Panic, s)
                | Some d \<Rightarrow>
                    (case runNotaryClient ops d keyName token fileName archiveExtension overwrite s of
                       (r, s') \<Rightarrow> (Return r, s'))))"

subsection \<open>linkPackages\<close>

text \<open>
  The state of the loop of \<^verbatim>\<open>linkPackages\<close>: the errors the catcher holds and the
  files whose signing goroutine has been started and has not finished yet. A signer
  runs as a whole, either where it is started (when the schedule \<open>signedBeforeResolve\<close>
  says it finishes before the result is evaluated) or at the deferred
  \<^verbatim>\<open>wg.Wait()\<close>, which Go runs after \<^verbatim>\<open>catcher.Resolve()\<close> has been evaluated.
\<close>

record 'w linking =
  sys :: "'w state"
  catcher :: "error list"
  waiting :: "path list"

datatype flow = Next | ReturnError error | Crash

text \<open>\<^verbatim>\<open>catcher.Resolve()\<close> of grip: nil when nothing was added, otherwise one error
  whose text is the catcher's rendering of the errors it holds.\<close>

definition catcher_Resolve :: "'w ops \<Rightarrow> error list \<Rightarrow> error option" where
  "catcher_Resolve ops es = (if es = [] then None else Some (catcher_String ops es))"

text \<open>Lines 131-138: the destination directory is created when \<^verbatim>\<open>os.Stat\<close> reports
  it missing.\<close>

definition ensureDest :: "'w ops \<Rightarrow> path \<Rightarrow> 'w state \<Rightarrow> error option \<times> 'w state" where
  "ensureDest ops dest s =
     (if os_StatNotExist ops (world s) dest
      then perform (EMkdirAll dest) (os_MkdirAll ops dest)
             (grip_log Notice [(''message'', ''creating directory: '' @ dest)] s)
      else (None, s))"

text \<open>Lines 141-170, for a development build: \<^verbatim>\<open>os.Remove(mirror)\<close> is called when
  \<^verbatim>\<open>os.Stat(mirror)\<close> reports the mirror missing; then, when replacing the first
  occurrence of the version string in the mirror path by the series changes the path,
  the mirror is renamed on disk, and a failure of the rename is returned from
  \<^verbatim>\<open>linkPackages\<close> at once.\<close>

definition renameDevelopment ::
  "'w ops \<Rightarrow> RepositoryDefinition \<Rightarrow> path \<Rightarrow> path \<Rightarrow> 'w state \<Rightarrow> (error + path) \<times> 'w state" where
  "renameDevelopment ops d pkg mirror s =
     (let rel = release (job s);
          ctx = [(''repo'', Name d), (''version'', VersionString rel), (''package'', pkg)]
      in if IsDevelopmentBuild rel then
           (let s1 = (if os_StatNotExist ops (world s) mirror
                      then (case perform (ERemove mirror) (os_Remove ops mirror) s of
                              (rerr, s') \<Rightarrow>
                                grip_WrapError Warning rerr
                                  ((''message'', ''problem removing previous development build'') # ctx) s')
                      else s);
                new = strings_Replace1 mirror (VersionString rel) (Series rel)
            in if new \<noteq> mirror then
                 (case perform (ERename mirror new) (os_Rename ops mirror new)
                         (grip_log Debug
                            ([(''op'', ''renaming development packages''),
                              (''from'', mirror), (''to'', new)] @ ctx) s1) of
                    (Some e, s2) \<Rightarrow> (Inl (errors_Wrap e ''problem renaming development release''), s2)
                  | (None, s2) \<Rightarrow> (Inr new, s2))
               else (Inr mirror, s1))
         else (Inr mirror, s))"

text \<open>Lines 189-197: the goroutine that signs a newly linked RPM package and adds the
  wrapped error, if any, to the catcher. A panic in a goroutine ends the process.\<close>

definition startSigner :: "'w ops \<Rightarrow> path \<Rightarrow> 'w linking \<Rightarrow> flow \<times> 'w linking" where
  "startSigner ops toSign ls =
     (if signedBeforeResolve ops toSign then
        (case signFile ops toSign [] True (sys ls) of
           (Panic, s') \<Rightarrow> (Crash, ls\<lparr>sys := s'\<rparr>)
         | (Return r, s') \<Rightarrow>
             (Next, ls\<lparr>sys := s',
                       catcher := catcher ls @
                         (case r of None \<Rightarrow> []
                          | Some e \<Rightarrow> [errors_Wrap e (''problem signing file '' @ toSign)])\<rparr>))
      else (Next, ls\<lparr>waiting := waiting ls @ [toSign]\<rparr>))"

text \<open>Lines 172-199: the source is linked to the mirror when \<^verbatim>\<open>os.Stat\<close> reports the
  mirror missing; nothing is done otherwise.\<close>

definition linkMirror ::
  "'w ops \<Rightarrow> RepositoryDefinition \<Rightarrow> path \<Rightarrow> path \<Rightarrow> path \<Rightarrow> 'w linking \<Rightarrow> flow \<times> 'w linking" where
  "linkMirror ops d dest pkg mirror ls =
     (if os_StatNotExist ops (world (sys ls)) mirror then
        (case perform (ELink pkg mirror) (os_Link ops pkg mirror)
                (grip_log Debug
                   [(''op'', ''copying packages to local staging''), (''from'', pkg), (''to'', dest),
                    (''repo'', Name d), (''version'', VersionString (release (job (sys ls))))]
                   (sys ls)) of
           (Some e, s1) \<Rightarrow>
             (Next, ls\<lparr>sys := s1,
                       catcher := catcher ls @
                         [errors_Wrap e (''problem copying package '' @ pkg @ '' to '' @ mirror)]\<rparr>)
         | (None, s1) \<Rightarrow>
             if Type d = RPM then startSigner ops mirror (ls\<lparr>sys := s1\<rparr>)
             else (Next, ls\<lparr>sys := s1\<rparr>))
      else (Next, ls))"

text \<open>One iteration of the loop over \<^verbatim>\<open>j.PackagePaths\<close> (lines 121-200).\<close>

definition linkPackage :: "'w ops \<Rightarrow> path \<Rightarrow> path \<Rightarrow> 'w linking \<Rightarrow> flow \<times> 'w linking" where
  "linkPackage ops dest pkg ls =
     (case Distro (job (sys ls)) of
        None \<Rightarrow> (Crash, ls)
      | Some d \<Rightarrow>
          if Type d = DEB \<and> \<not> strings_HasSuffix pkg ''.deb'' then (Next, ls)
          else (case ensureDest ops dest (sys ls) of
                  (Some e, s1) \<Rightarrow>
                    (Next, ls\<lparr>sys := s1,
                              catcher := catcher ls @
                                [errors_Wrap e (''problem creating directory '' @ dest)]\<rparr>)
                | (None, s1) \<Rightarrow>
                    (case renameDevelopment ops d pkg
                            (filepath_Join dest (filepath_Base pkg)) s1 of
                       (Inl e, s2) \<Rightarrow> (ReturnError e, ls\<lparr>sys := s2\<rparr>)
                     | (Inr mirror, s2) \<Rightarrow> linkMirror ops d dest pkg mirror (ls\<lparr>sys := s2\<rparr>))))"

fun linkLoop :: "'w ops \<Rightarrow> path \<Rightarrow> path list \<Rightarrow> 'w linking \<Rightarrow> flow \<times> 'w linking" where
  "linkLoop ops dest [] ls = (Next, ls)"
| "linkLoop ops dest (pkg # pkgs) ls =
     (case linkPackage ops dest pkg ls of
        (Next, ls') \<Rightarrow> linkLoop ops dest pkgs ls'
      | (ReturnError e, ls') \<Rightarrow> (ReturnError e, ls')
      | (Crash, ls') \<Rightarrow> (Crash, ls'))"

text \<open>The deferred \<^verbatim>\<open>wg.Wait()\<close>: the signers still running finish; the errors they
  add to the catcher come after the result was evaluated and are not part of it.\<close>

fun waitSigners :: "'w ops \<Rightarrow> path list \<Rightarrow> 'w state \<Rightarrow> bool \<times> 'w state" where
  "waitSigners ops [] s = (False, s)"
| "waitSigners ops (f # fs) s =
     (case signFile ops f [] True s of
        (Panic, s') \<Rightarrow> (True, s')
      | (Return r, s') \<Rightarrow> waitSigners ops fs s')"

text \<open>\<^verbatim>\<open>linkPackages\<close> (lines 117-203), first as a function of the list the loop
  ranges over, then on \<^verbatim>\<open>j.PackagePaths\<close>.\<close>

definition linkPackagesOver ::
  "'w ops \<Rightarrow> path \<Rightarrow> path list \<Rightarrow> 'w state \<Rightarrow> error option outcome \<times> 'w state" where
  "linkPackagesOver ops dest pkgs s =
     (case linkLoop ops dest pkgs \<lparr>sys = s, catcher = [], waiting = []\<rparr> of
        (fl, ls) \<Rightarrow>
          (case waitSigners ops (waiting ls) (sys ls) of
             (crashed, s') \<Rightarrow>
               (if crashed then (Panic, s')
                else (case fl of
                        Crash \<Rightarrow> (Panic, s')
                      | ReturnError e \<Rightarrow> (Return (Some e), s')
                      | Next \<Rightarrow> (Return (catcher_Resolve ops (catcher ls)), s')))))"

definition linkPackages :: "'w ops \<Rightarrow> path \<Rightarrow> 'w state \<Rightarrow> error option outcome \<times> 'w state" where
  "linkPackages ops dest s = linkPackagesOver ops dest (PackagePaths (job s)) s"

subsection \<open>setup\<close>

text \<open>
  Modelled from the spec: \<^verbatim>\<open>setupDEBJob\<close> and \<^verbatim>\<open>setupRPMJob\<close> are not among the
  sources. The spec says that the format tag selects exactly one Injector/Rebuilder
  implementation, so each of them installs the builder of its format.
\<close>

definition setupDEBJob :: "'w state \<Rightarrow> 'w state" where
  "setupDEBJob s = s\<lparr>job := (job s)\<lparr>builder := Some DebBuilder\<rparr>\<rparr>"

definition setupRPMJob :: "'w state \<Rightarrow> 'w state" where
  "setupRPMJob s = s\<lparr>job := (job s)\<lparr>builder := Some RpmBuilder\<rparr>\<rparr>"

text \<open>\<^verbatim>\<open>setup\<close> (lines 98-115), named \<open>setupJob\<close> here. After the error for a nil distro is added, the next
  statement reads \<^verbatim>\<open>j.Distro.Type\<close>, which panics on the nil pointer.\<close>

definition setupJob :: "'w state \<Rightarrow> unit outcome \<times> 'w state" where
  "setupJob s =
     (if builder (job s) \<noteq> None then (Return (), s)
      else (case Distro (job s) of
              None \<Rightarrow> (Panic, AddError ''invalid job definition, missing distro'' s)
            | Some d \<Rightarrow>
                if Type d = DEB then (Return (), setupDEBJob s)
                else if Type d = RPM then (Return (), setupRPMJob s)
                else (Return (),
                      AddError (''invalid distro definition '' @ [CHR 0x27] @ Type d @ [CHR 0x27]) s)))"

subsection \<open>Run\<close>

text \<open>
  How the body of the loop over \<^verbatim>\<open>j.Distro.Repos\<close> ends: it falls through to the
  next remote, it executes \<^verbatim>\<open>return\<close> (which leaves \<^verbatim>\<open>Run\<close>, not only the
  iteration), or it panics. The distro \<open>d\<close> is the one read after \<^verbatim>\<open>setup\<close>;
  nothing assigns \<^verbatim>\<open>j.Distro\<close> later. The deadline of the context and the
  parallel wrapper around the bucket only bear on what \<^verbatim>\<open>Pull\<close> and \<^verbatim>\<open>Push\<close>
  return, which are parameters here.
\<close>

datatype run_flow = NextRemote | ReturnFromRun | PanicInRun

text \<open>Lines 348-357: the options the bucket is made from.\<close>

definition s3Options :: "repoBuilderJob \<Rightarrow> RepositoryDefinition \<Rightarrow> S3Options" where
  "s3Options j d =
     \<lparr>opt_Region = Region d,
      opt_SharedCredentialsProfile = Profile j,
      opt_Name = Bucket d,
      opt_DryRun = DryRun (Conf j),
      opt_Verbose = Verbose (Conf j),
      opt_UseSingleFileChecksums = True,
      opt_Permissions = ''public-read'',
      opt_MaxRetries = 10\<rparr>"

text \<open>Lines 438-451: the component and the local directory to publish. The slice
  \<^verbatim>\<open>changed[len(local)+1:]\<close> panics when the index is beyond the string; a format that
  is neither DEB nor RPM has no subtree.\<close>

definition publishedSubtree ::
  "RepositoryDefinition \<Rightarrow> path \<Rightarrow> path \<Rightarrow> (path \<times> path) option outcome" where
  "publishedSubtree d local changed =
     (if Type d = DEB then
        (if length changed < length local + 1 then Panic
         else Return (Some (filepath_Dir (drop (length local + 1) changed), filepath_Dir changed)))
      else if Type d = RPM then
        (if length changed < length local + 1 then Panic
         else Return (Some (drop (length local + 1) changed, changed)))
      else Return None)"

text \<open>Lines 424-463: injection, rebuild, the subtree to publish, and the push. A nil
  builder panics at the call of its method.\<close>

definition injectRebuildPush ::
  "'w ops \<Rightarrow> RepositoryDefinition \<Rightarrow> string \<Rightarrow> path \<Rightarrow> 'w state \<Rightarrow> run_flow \<times> 'w state" where
  "injectRebuildPush ops d remote local s =
     (case builder (job s) of
        None \<Rightarrow>
          (PanicInRun,
           grip_log Info [(''message'', ''copying new packages into local staging area'')] s)
      | Some b \<Rightarrow>
          (case perform (EInjectPackage local (getPackageLocation (job s)))
                  (impl_injectPackage ops b local (getPackageLocation (job s)))
                  (grip_log Info [(''message'', ''copying new packages into local staging area'')] s) of
             (Inl e, s1) \<Rightarrow>
               (ReturnFromRun,
                AddError (errors_Wrap e ''problem copying packages into staging repos'') s1)
           | (Inr changed, s1) \<Rightarrow>
               (case perform (ERebuildRepo changed) (impl_rebuildRepo ops b changed) s1 of
                  (Some e, s2) \<Rightarrow>
                    (ReturnFromRun,
                     AddError (errors_Wrap e
                        (''problem building repo in '' @ [CHR 0x27] @ changed @ [CHR 0x27])) s2)
                | (None, s2) \<Rightarrow>
                    (case publishedSubtree d local changed of
                       Panic \<Rightarrow> (PanicInRun, s2)
                     | Return None \<Rightarrow>
                         (ReturnFromRun,
                          AddError (''curator does not support uploading '' @ [CHR 0x27] @ Type d @
                                    [CHR 0x27] @ '' repos'') s2)
                     | Return (Some (changedComponent, syncSource)) \<Rightarrow>
                         (case perform (EPush syncSource (filepath_Join remote changedComponent))
                                 (bucket_Push ops syncSource (filepath_Join remote changedComponent)) s2 of
                            (Some e, s3) \<Rightarrow>
                              (ReturnFromRun,
                               AddError (errors_Wrap e
                                  (''problem uploading '' @ syncSource @ '' to '' @
                                   fmt_bucket ops (s3Options (job s) d) @
                                   ''/'' @ changedComponent)) s3)
                          | (None, s3) \<Rightarrow> (NextRemote, s3))))))"

text \<open>Lines 384-421 followed by the rest of the body: the working directory is noted,
  the local directory created and the package location pulled.\<close>

definition rebuildRemote ::
  "'w ops \<Rightarrow> RepositoryDefinition \<Rightarrow> string \<Rightarrow> 'w state \<Rightarrow> run_flow \<times> 'w state" where
  "rebuildRemote ops d remote s0 =
     (let s = s0\<lparr>job := (job s0)\<lparr>workingDirs := workingDirs (job s0) @ [remote]\<rparr>\<rparr>;
          ctx = [(''repo'', Name d), (''version'', VersionString (release (job s))),
                 (''remote'', remote)];
          local = filepath_Join (WorkSpace (Conf (job s))) remote;
          pkgLocation = getPackageLocation (job s)
      in (case perform (EMkdirAll local) (os_MkdirAll ops local)
                 (grip_log Debug ((''message'', ''rebuilding repo'') # ctx @
                            [(''bucket'', fmt_bucket ops (s3Options (job s) d))]) s) of
            (Some e, s1) \<Rightarrow>
              (ReturnFromRun, AddError (errors_Wrap e (''problem creating directory '' @ local)) s1)
          | (None, s1) \<Rightarrow>
              (case perform (EPull (filepath_Join local pkgLocation) (filepath_Join remote pkgLocation))
                      (bucket_Pull ops (filepath_Join local pkgLocation) (filepath_Join remote pkgLocation))
                      (grip_log Debug ((''message'', ''downloading package'') # ctx @ [(''local'', local)]) s1) of
                 (Some e, s2) \<Rightarrow>
                   (ReturnFromRun,
                    AddError (errors_Wrap e (''problem syncing from '' @ remote @ '' to '' @ local)) s2)
               | (None, s2) \<Rightarrow> injectRebuildPush ops d remote local s2)))"

fun rebuildRemotes ::
  "'w ops \<Rightarrow> RepositoryDefinition \<Rightarrow> string list \<Rightarrow> 'w state \<Rightarrow> run_flow \<times> 'w state" where
  "rebuildRemotes ops d [] s = (NextRemote, s)"
| "rebuildRemotes ops d (remote # remotes) s =
     (case rebuildRemote ops d remote s of
        (NextRemote, s') \<Rightarrow> rebuildRemotes ops d remotes s'
      | (ReturnFromRun, s') \<Rightarrow> (ReturnFromRun, s')
      | (PanicInRun, s') \<Rightarrow> (PanicInRun, s'))"

text \<open>\<^verbatim>\<open>job.Base.Error\<close>: nil without errors, otherwise the recorded texts joined by
  newlines.\<close>

definition job_Error :: "error list \<Rightarrow> error option" where
  "job_Error es = (if es = [] then None else Some (strings_Join es [CHR 0x0A]))"

text \<open>Lines 466-479: the closing log record, reached when the loop ran to its end.\<close>

definition reportOutcome :: "RepositoryDefinition \<Rightarrow> 'w state \<Rightarrow> 'w state" where
  "reportOutcome d s =
     (let msg = [(''message'', ''completed rebuilding repositories''),
                 (''repo'', Name d), (''version'', VersionString (release (job s)))]
      in if Errors (job s) \<noteq> []
         then grip_WrapError Warning (job_Error (Errors (job s)))
                (msg @ [(''outcome'', ''encountered problem'')]) s
         else grip_log Info msg s)"

text \<open>\<^verbatim>\<open>Run\<close> (lines 346-480). \<^verbatim>\<open>setup\<close> returns nothing and \<^verbatim>\<open>Run\<close> does not
  look at the errors it added. \<^verbatim>\<open>defer j.MarkComplete()\<close> is registered after the
  return for a failed bucket, so it runs on every exit behind that point, a panic
  included, and on none before it.\<close>

definition Run :: "'w ops \<Rightarrow> 'w state \<Rightarrow> unit outcome \<times> 'w state" where
  "Run ops s0 =
     (case setupJob s0 of
        (Panic, s1) \<Rightarrow> (Panic, s1)
      | (Return u, s1) \<Rightarrow>
          (case Distro (job s1) of
             None \<Rightarrow> (Panic, s1)
           | Some d \<Rightarrow>
               (case perform (ENewS3Bucket (s3Options (job s1) d))
                       (pail_NewS3Bucket ops (s3Options (job s1) d)) s1 of
                  (Some e, s2) \<Rightarrow>
                    (Return (), AddError (errors_Wrap e (''problem getting s3 bucket '' @ Bucket d)) s2)
                | (None, s2) \<Rightarrow>
                    (case rebuildRemotes ops d (Repos d) s2 of
                       (NextRemote, s3) \<Rightarrow> (Return (), MarkComplete (reportOutcome d s3))
                     | (ReturnFromRun, s3) \<Rightarrow> (Return (), MarkComplete s3)
                     | (PanicInRun, s3) \<Rightarrow> (Panic, MarkComplete s3)))))"

section \<open>An executable environment\<close>

text \<open>
  A small deterministic world on which the methods can be evaluated: environment
  variables, regular files (path and content), directories, and the answers the object
  store and the signer give. A rename or a link whose source is missing fails, a link
  onto an existing path fails, and removing a missing path fails, as on a Unix file
  system. The builders of this world stage into \<open>local/location\<close> and fail for the
  directories listed; the bucket prints as its name and the catcher joins its messages
  by newlines.
\<close>

record sim =
  sim_env :: "(string \<times> string) list"
  sim_files :: "(path \<times> string) list"
  sim_dirs :: "path list"
  sim_bucket :: "error option"
  sim_pull :: "(path \<times> error) list"
  sim_push :: "(path \<times> error) list"
  sim_inject :: "(path \<times> error) list"
  sim_rebuild :: "(path \<times> error) list"
  sim_signer :: "string \<times> error option"

definition sim_Getenv :: "sim \<Rightarrow> string \<Rightarrow> string" where
  "sim_Getenv w k = (case map_of (sim_env w) k of None \<Rightarrow> [] | Some v \<Rightarrow> v)"

definition sim_StatNotExist :: "sim \<Rightarrow> path \<Rightarrow> bool" where
  "sim_StatNotExist w p = (map_of (sim_files w) p = None \<and> p \<notin> set (sim_dirs w))"

definition sim_MkdirAll :: "path \<Rightarrow> sim \<Rightarrow> error option \<times> sim" where
  "sim_MkdirAll p w =
     (if map_of (sim_files w) p \<noteq> None then (Some (''mkdir '' @ p @ '': not a directory''), w)
      else (None, w\<lparr>sim_dirs := List.insert p (sim_dirs w)\<rparr>))"

definition sim_Remove :: "path \<Rightarrow> sim \<Rightarrow> error option \<times> sim" where
  "sim_Remove p w =
     (if sim_StatNotExist w p then (Some (''remove '' @ p @ '': no such file or directory''), w)
      else (None, w\<lparr>sim_files := filter (\<lambda>e. fst e \<noteq> p) (sim_files w),
                     sim_dirs := removeAll p (sim_dirs w)\<rparr>))"

definition sim_Rename :: "path \<Rightarrow> path \<Rightarrow> sim \<Rightarrow> error option \<times> sim" where
  "sim_Rename a b w =
     (case map_of (sim_files w) a of
        None \<Rightarrow> (Some (''rename '' @ a @ '' '' @ b @ '': no such file or directory''), w)
      | Some c \<Rightarrow>
          (None, w\<lparr>sim_files := filter (\<lambda>e. fst e \<noteq> a \<and> fst e \<noteq> b) (sim_files w) @ [(b, c)]\<rparr>))"

definition sim_Link :: "path \<Rightarrow> path \<Rightarrow> sim \<Rightarrow> error option \<times> sim" where
  "sim_Link a b w =
     (case map_of (sim_files w) a of
        None \<Rightarrow> (Some (''link '' @ a @ '' '' @ b @ '': no such file or directory''), w)
      | Some c \<Rightarrow>
          if sim_StatNotExist w b then (None, w\<lparr>sim_files := sim_files w @ [(b, c)]\<rparr>)
          else (Some (''link '' @ a @ '' '' @ b @ '': file exists''), w))"

definition simOps :: "bool \<Rightarrow> sim ops" where
  "simOps early =
     \<lparr>os_Getenv = sim_Getenv,
      os_StatNotExist = sim_StatNotExist,
      os_MkdirAll = sim_MkdirAll,
      os_Remove = sim_Remove,
      os_Rename = sim_Rename,
      os_Link = sim_Link,
      exec_CombinedOutput = (\<lambda>args dir w. (sim_signer w, w)),
      pail_NewS3Bucket = (\<lambda>opts w. (sim_bucket w, w)),
      bucket_Pull = (\<lambda>loc rem w. (map_of (sim_pull w) rem, w)),
      bucket_Push = (\<lambda>loc rem w. (map_of (sim_push w) rem, w)),
      impl_injectPackage =
        (\<lambda>b loc sub w. (case map_of (sim_inject w) loc of
                         None \<Rightarrow> Inr (filepath_Join loc sub) | Some e \<Rightarrow> Inl e, w)),
      impl_rebuildRepo = (\<lambda>b p w. (map_of (sim_rebuild w) p, w)),
      signedBeforeResolve = (\<lambda>f. early),
      fmt_bucket = opt_Name,
      catcher_String = (\<lambda>es. strings_Join es [CHR 0x0A])\<rparr>"

definition emptySim :: sim where
  "emptySim =
     \<lparr>sim_env = [], sim_files = [], sim_dirs = [], sim_bucket = None,
      sim_pull = [], sim_push = [], sim_inject = [], sim_rebuild = [],
      sim_signer = ([], None)\<rparr>"

definition start :: "repoBuilderJob \<Rightarrow> 'w \<Rightarrow> 'w state" where
  "start j w = \<lparr>job = j, world = w, trace = [], logs = []\<rparr>"

text \<open>Jobs for the examples: a stable release 4.0.1, and a development build of the
  4.1 series.\<close>

definition stableRelease :: MongoDBVersion where
  "stableRelease =
     \<lparr>VersionString = ''4.0.1'', Series = ''4.0'', StableReleaseSeries = ''4.0'',
      IsDevelopmentBuild = False, IsReleaseCandidate = False, IsDevelopmentSeries = False\<rparr>"

definition nightlyRelease :: MongoDBVersion where
  "nightlyRelease =
     \<lparr>VersionString = ''4.1.0-22-gabc'', Series = ''4.1'', StableReleaseSeries = ''4.2'',
      IsDevelopmentBuild = True, IsReleaseCandidate = False, IsDevelopmentSeries = True\<rparr>"

definition exampleConf :: RepositoryConfig where
  "exampleConf = \<lparr>WorkSpace = ''/ws'', DryRun = False, Verbose = False, NotaryURL = ''https://notary''\<rparr>"

definition exampleDistro :: "RepoType \<Rightarrow> string list \<Rightarrow> RepositoryDefinition" where
  "exampleDistro t rs = \<lparr>Name = ''distro'', Type = t, Bucket = ''repo-bucket'', Region = ''us-east-1'', Repos = rs\<rparr>"

definition exampleJob ::
  "RepositoryDefinition option \<Rightarrow> jobImpl option \<Rightarrow> MongoDBVersion \<Rightarrow> string list \<Rightarrow> repoBuilderJob" where
  "exampleJob d b rel pkgs =
     \<lparr>Distro = d, Conf = exampleConf, Output = Map.empty, Version = VersionString rel,
      Arch = ''x86_64'', Profile = ''default'', PackagePaths = pkgs, workingDirs = [],
      release = rel, builder = b, Errors = [], Completed = False\<rparr>"

section \<open>Notions the properties are stated with\<close>

text \<open>The key name and the token as the claim about key selection words them: the
  override from the environment first, then the legacy key of DEB repositories of the
  series 3.0 and 2.6 with the legacy token, then the key of the stable series.\<close>

definition envKeyName :: "'w ops \<Rightarrow> 'w state \<Rightarrow> string" where
  "envKeyName ops s = os_Getenv ops (world s) ''NOTARY_KEY_NAME''"

definition legacyDeb :: "RepositoryDefinition \<Rightarrow> 'w state \<Rightarrow> bool" where
  "legacyDeb d s = (Type d = DEB \<and> Series (release (job s)) \<in> {''3.0'', ''2.6''})"

definition selectedKey :: "'w ops \<Rightarrow> RepositoryDefinition \<Rightarrow> 'w state \<Rightarrow> string" where
  "selectedKey ops d s =
     (if envKeyName ops s \<noteq> [] then envKeyName ops s
      else if legacyDeb d s then ''richard''
      else ''server-'' @ StableReleaseSeries (release (job s)))"

definition selectedToken :: "'w ops \<Rightarrow> RepositoryDefinition \<Rightarrow> 'w state \<Rightarrow> string" where
  "selectedToken ops d s =
     (if envKeyName ops s = [] \<and> legacyDeb d s
      then os_Getenv ops (world s) ''NOTARY_TOKEN_DEB_LEGACY''
      else os_Getenv ops (world s) ''NOTARY_TOKEN'')"

text \<open>The state in which the loop of \<^verbatim>\<open>linkPackages\<close> starts, and the local
  staging directory of a remote in \<^verbatim>\<open>Run\<close>.\<close>

definition linking :: "'w state \<Rightarrow> 'w linking" where
  "linking s = \<lparr>sys = s, catcher = [], waiting = []\<rparr>"

definition localOf :: "'w state \<Rightarrow> string \<Rightarrow> path" where
  "localOf s r = filepath_Join (WorkSpace (Conf (job s))) r"

section \<open>Example jobs and worlds\<close>

text \<open>States for the examples of signing.\<close>

definition legacyRelease :: MongoDBVersion where
  "legacyRelease =
     \<lparr>VersionString = ''3.0.15'', Series = ''3.0'', StableReleaseSeries = ''3.0'',
      IsDevelopmentBuild = False, IsReleaseCandidate = False, IsDevelopmentSeries = False\<rparr>"

definition legacySigning :: "sim state" where
  "legacySigning =
     start (exampleJob (Some (exampleDistro DEB [''r1''])) (Some DebBuilder) legacyRelease [])
       (emptySim\<lparr>sim_env := [(''NOTARY_TOKEN_DEB_LEGACY'', ''legacy-token'')]\<rparr>)"

definition stableSigning :: "(string \<times> string) list \<Rightarrow> string \<times> error option \<Rightarrow> sim state" where
  "stableSigning env answer =
     start (exampleJob (Some (exampleDistro RPM [''r1''])) (Some RpmBuilder) stableRelease [])
       (emptySim\<lparr>sim_env := env, sim_signer := answer\<rparr>)"

text \<open>A signer that succeeds and prints a line; a DEB job whose candidates are an index
  file and a package; the same package staged a second time, and staged without its
  source file.\<close>

definition signedOk :: "sim state" where
  "signedOk = stableSigning [(''NOTARY_TOKEN'', ''tok'')] ('' signed ok'' @ [CHR 0x0A], None)"

definition debStaging :: "sim state" where
  "debStaging =
     start (exampleJob (Some (exampleDistro DEB [''r1''])) (Some DebBuilder) stableRelease
              [''/in/Packages.gz'', ''/in/pkg_4.0.1_amd64.deb''])
       (emptySim\<lparr>sim_files := [(''/in/Packages.gz'', ''index''), (''/in/pkg_4.0.1_amd64.deb'', ''deb'')]\<rparr>)"

definition debJob :: repoBuilderJob where
  "debJob = exampleJob (Some (exampleDistro DEB [''r1''])) (Some DebBuilder) stableRelease
              [''/in/pkg_4.0.1_amd64.deb'']"

definition debRerun :: "sim linking" where
  "debRerun =
     linking (start debJob
       (emptySim\<lparr>sim_files := [(''/in/pkg_4.0.1_amd64.deb'', ''deb''),
                                (''/ws/r1/4.0/pkg_4.0.1_amd64.deb'', ''deb'')],
                  sim_dirs := [''/ws/r1/4.0'']\<rparr>))"

definition debNoSource :: "sim linking" where
  "debNoSource = linking (start debJob (emptySim\<lparr>sim_dirs := [''/ws/r1/4.0'']\<rparr>))"

text \<open>A development build whose package is staged for the first time
  (\<open>nightlyFresh\<close>), staged while a file of the same version-named destination is there
  (\<open>nightlyStale\<close>), and staged again after the destination got its series name
  (\<open>nightlyRerun\<close>).\<close>

definition nightlyJob :: repoBuilderJob where
  "nightlyJob = exampleJob (Some (exampleDistro RPM [''r1''])) (Some RpmBuilder) nightlyRelease
                  [''/in/pkg-4.1.0-22-gabc.rpm'']"

definition nightlyFresh :: "sim state" where
  "nightlyFresh =
     start nightlyJob
       (emptySim\<lparr>sim_files := [(''/in/pkg-4.1.0-22-gabc.rpm'', ''new'')],
                  sim_dirs := [''/ws/r1/development'']\<rparr>)"

definition nightlyStale :: "sim state" where
  "nightlyStale =
     start nightlyJob
       (emptySim\<lparr>sim_files := [(''/in/pkg-4.1.0-22-gabc.rpm'', ''new''),
                                (''/ws/r1/development/pkg-4.1.0-22-gabc.rpm'', ''old'')],
                  sim_dirs := [''/ws/r1/development'']\<rparr>)"

definition nightlyRerun :: "sim state" where
  "nightlyRerun =
     start nightlyJob
       (emptySim\<lparr>sim_files := [(''/in/pkg-4.1.0-22-gabc.rpm'', ''new''),
                                (''/ws/r1/development/pkg-4.1.rpm'', ''old'')],
                  sim_dirs := [''/ws/r1/development'']\<rparr>)"

text \<open>Jobs for the examples of \<^verbatim>\<open>Run\<close>: a stable release, the builder not yet
  installed; the world answers the pulls of the listed remote paths with an error.\<close>

definition runJob :: "RepositoryDefinition option \<Rightarrow> repoBuilderJob" where
  "runJob d = exampleJob d None stableRelease []"

definition twoRemotes :: "(path \<times> error) list \<Rightarrow> sim state" where
  "twoRemotes failing =
     start (runJob (Some (exampleDistro RPM [''r1'', ''r2'']))) (emptySim\<lparr>sim_pull := failing\<rparr>)"

section \<open>The pipelines of the remotes, step by step\<close>

text \<open>
  The pipeline of one remote as the spec lists its steps, on the world alone: create
  the local directory, pull the package location, inject, rebuild, compute the subtree,
  push. The first step that fails ends the pipeline with its error; the result carries
  the calls made, in order, and the world they leave. \<open>ws\<close> is the workspace, \<open>loc\<close>
  the package location, \<open>btxt\<close> the printed bucket.
\<close>

datatype pipeline_result = StepsDone | StepFailed error | StepPanicked

fun flowOf :: "pipeline_result \<Rightarrow> run_flow" where
  "flowOf StepsDone = NextRemote"
| "flowOf (StepFailed e) = ReturnFromRun"
| "flowOf StepPanicked = PanicInRun"

fun errorOf :: "pipeline_result \<Rightarrow> error list" where
  "errorOf StepsDone = []"
| "errorOf (StepFailed e) = [e]"
| "errorOf StepPanicked = []"

definition publishSteps ::
  "'w ops \<Rightarrow> RepositoryDefinition \<Rightarrow> jobImpl \<Rightarrow> path \<Rightarrow> string \<Rightarrow> string \<Rightarrow> string \<Rightarrow> 'w \<Rightarrow>
   pipeline_result \<times> event list \<times> 'w" where
  "publishSteps ops d b local loc btxt r w =
     (case impl_injectPackage ops b local loc w of
        (Inl e, w3) \<Rightarrow>
          (StepFailed (errors_Wrap e ''problem copying packages into staging repos''),
           [EInjectPackage local loc], w3)
      | (Inr changed, w3) \<Rightarrow>
          (case impl_rebuildRepo ops b changed w3 of
             (Some e, w4) \<Rightarrow>
               (StepFailed (errors_Wrap e (''problem building repo in '' @ [CHR 0x27] @ changed @ [CHR 0x27])),
                [EInjectPackage local loc, ERebuildRepo changed], w4)
           | (None, w4) \<Rightarrow>
               (case publishedSubtree d local changed of
                  Panic \<Rightarrow> (StepPanicked, [EInjectPackage local loc, ERebuildRepo changed], w4)
                | Return None \<Rightarrow>
                    (StepFailed (''curator does not support uploading '' @ [CHR 0x27] @ Type d @
                                 [CHR 0x27] @ '' repos''),
                     [EInjectPackage local loc, ERebuildRepo changed], w4)
                | Return (Some (component, source)) \<Rightarrow>
                    (case bucket_Push ops source (filepath_Join r component) w4 of
                       (Some e, w5) \<Rightarrow>
                         (StepFailed (errors_Wrap e (''problem uploading '' @ source @ '' to '' @ btxt @
                                                     ''/'' @ component)),
                          [EInjectPackage local loc, ERebuildRepo changed,
                           EPush source (filepath_Join r component)], w5)
                     | (None, w5) \<Rightarrow>
                         (StepsDone,
                          [EInjectPackage local loc, ERebuildRepo changed,
                           EPush source (filepath_Join r component)], w5)))))"

definition remotePipeline ::
  "'w ops \<Rightarrow> RepositoryDefinition \<Rightarrow> jobImpl \<Rightarrow> path \<Rightarrow> string \<Rightarrow> string \<Rightarrow> string \<Rightarrow> 'w \<Rightarrow>
   pipeline_result \<times> event list \<times> 'w" where
  "remotePipeline ops d b ws loc btxt r w =
     (case os_MkdirAll ops (filepath_Join ws r) w of
        (Some e, w1) \<Rightarrow>
          (StepFailed (errors_Wrap e (''problem creating directory '' @ filepath_Join ws r)),
           [EMkdirAll (filepath_Join ws r)], w1)
      | (None, w1) \<Rightarrow>
          (case bucket_Pull ops (filepath_Join (filepath_Join ws r) loc) (filepath_Join r loc) w1 of
             (Some e, w2) \<Rightarrow>
               (StepFailed (errors_Wrap e (''problem syncing from '' @ r @ '' to '' @ filepath_Join ws r)),
                [EMkdirAll (filepath_Join ws r),
                 EPull (filepath_Join (filepath_Join ws r) loc) (filepath_Join r loc)], w2)
           | (None, w2) \<Rightarrow>
               (case publishSteps ops d b (filepath_Join ws r) loc btxt r w2 of
                  (res, evs, w') \<Rightarrow>
                    (res,
                     [EMkdirAll (filepath_Join ws r),
                      EPull (filepath_Join (filepath_Join ws r) loc) (filepath_Join r loc)] @ evs,
                     w'))))"

text \<open>The remotes one after the other, in the order of the list: the pipeline of the
  next remote starts in the world the previous one left, and the first pipeline that
  does not run to its end is the last one that is started.\<close>

fun remotesInOrder ::
  "'w ops \<Rightarrow> RepositoryDefinition \<Rightarrow> jobImpl \<Rightarrow> path \<Rightarrow> string \<Rightarrow> string \<Rightarrow> string list \<Rightarrow> 'w \<Rightarrow>
   pipeline_result \<times> event list \<times> 'w" where
  "remotesInOrder ops d b ws loc btxt [] w = (StepsDone, [], w)"
| "remotesInOrder ops d b ws loc btxt (r # rs) w =
     (case remotePipeline ops d b ws loc btxt r w of
        (StepsDone, evs, w') \<Rightarrow>
          (case remotesInOrder ops d b ws loc btxt rs w' of
             (res, evs', w'') \<Rightarrow> (res, evs @ evs', w''))
      | (StepFailed e, evs, w') \<Rightarrow> (StepFailed e, evs, w')
      | (StepPanicked, evs, w') \<Rightarrow> (StepPanicked, evs, w'))"

text \<open>The builder \<^verbatim>\<open>setup\<close> leaves in the job: the one already there, or the one of
  the distro's format.\<close>

definition installedBuilder :: "repoBuilderJob \<Rightarrow> RepositoryDefinition \<Rightarrow> jobImpl option" where
  "installedBuilder j d =
     (case builder j of
        Some b \<Rightarrow> Some b
      | None \<Rightarrow> if Type d = DEB then Some DebBuilder
                else if Type d = RPM then Some RpmBuilder
                else None)"

definition settings ::
  "repoBuilderJob \<Rightarrow> RepositoryConfig \<times> MongoDBVersion \<times> string \<times> jobImpl option \<times> RepositoryDefinition option" where
  "settings j = (Conf j, release j, Profile j, builder j, Distro j)"

fun outcomeOf :: "pipeline_result \<Rightarrow> unit outcome" where
  "outcomeOf StepsDone = Return ()"
| "outcomeOf (StepFailed e) = Return ()"
| "outcomeOf StepPanicked = Panic"

text \<open>What \<^verbatim>\<open>Run\<close> is to do once the bucket \<open>w\<close> is the world after the bucket was
  opened: the remotes of the distro in order, with the workspace, the package location
  and the bucket of the job.\<close>

definition runPipeline ::
  "'w ops \<Rightarrow> RepositoryDefinition \<Rightarrow> jobImpl \<Rightarrow> repoBuilderJob \<Rightarrow> 'w \<Rightarrow>
   pipeline_result \<times> event list \<times> 'w" where
  "runPipeline ops d b j w =
     remotesInOrder ops d b (WorkSpace (Conf j)) (getPackageLocation j)
       (fmt_bucket ops (s3Options j d)) (Repos d) w"

definition pushFails :: "sim state" where
  "pushFails =
     start (runJob (Some (exampleDistro RPM [''r1'', ''r2''])))
       (emptySim\<lparr>sim_push := [(''r1/4.0'', ''denied'')]\<rparr>)"




section \<open>The signer call in full\<close>

text \<open>
  The signer call of \<^verbatim>\<open>signFile\<close> in full: its arguments, the world it runs in (after
  the removal of the old signature when the file is not overwritten), what it returns,
  and the log record that reports it: an info record when the signer succeeded, a
  warning with the error when it failed, each with the path of the file and the trimmed
  output.
\<close>

definition signerArgs :: "'w ops \<Rightarrow> RepositoryDefinition \<Rightarrow> path \<Rightarrow> string \<Rightarrow> bool \<Rightarrow> 'w state \<Rightarrow> string list" where
  "signerArgs ops d f ext ow s =
     notaryArgs (job s) (selectedKey ops d s) (selectedToken ops d s) ext @
     (if ow then [''--package-file-suffix'', []] else []) @ [filepath_Base f]"

definition worldAtSigner :: "'w ops \<Rightarrow> path \<Rightarrow> string \<Rightarrow> bool \<Rightarrow> 'w \<Rightarrow> 'w" where
  "worldAtSigner ops f ext ow w = (if ow then w else snd (os_Remove ops (f @ ''.'' @ ext) w))"

definition signerRun ::
  "'w ops \<Rightarrow> RepositoryDefinition \<Rightarrow> path \<Rightarrow> string \<Rightarrow> bool \<Rightarrow> 'w state \<Rightarrow> (string \<times> error option) \<times> 'w" where
  "signerRun ops d f ext ow s =
     exec_CombinedOutput ops (signerArgs ops d f ext ow s) (filepath_Dir f)
       (worldAtSigner ops f ext ow (world s))"

definition signerRecord ::
  "RepositoryDefinition \<Rightarrow> 'w state \<Rightarrow> path \<Rightarrow> string \<times> error option \<Rightarrow> logmsg" where
  "signerRecord d s f answer =
     (case snd answer of
        None \<Rightarrow>
          (Info, logContext d s @
                 [(''message'', ''signed file''), (''path'', f),
                  (''output'', strings_Trim (fst answer) ('' '' @ [CHR 0x0A, CHR 0x09]))])
      | Some e \<Rightarrow>
          (Warning, (''error'', e) #
                    logContext d s @
                    [(''message'', ''error signing file''), (''path'', f),
                     (''output'', strings_Trim (fst answer) ('' '' @ [CHR 0x0A, CHR 0x09]))]))"

definition signerResult :: "string \<times> error option \<Rightarrow> error option" where
  "signerResult answer =
     (case snd answer of
        None \<Rightarrow> None
      | Some e \<Rightarrow> Some (errors_Wrap e ''problem with notary service client signing file''))"

definition signerFails :: "sim state" where
  "signerFails = stableSigning [(''NOTARY_TOKEN'', ''tok'')] (''bad key '', Some ''exit status 1'')"

definition legacyTokenMissing :: "sim state" where
  "legacyTokenMissing =
     start (exampleJob (Some (exampleDistro DEB [''r1''])) (Some DebBuilder) legacyRelease [])
       (emptySim\<lparr>sim_env := [(''NOTARY_TOKEN'', ''tok'')]\<rparr>)"

section \<open>Properties\<close>

subsection \<open>What logging, calls and signing leave unchanged\<close>

lemma grip_log_proj [simp]:
  "job (grip_log l fs s) = job s" "world (grip_log l fs s) = world s"
  "trace (grip_log l fs s) = trace s" "logs (grip_log l fs s) = logs s @ [(l, fs)]"
  by (simp_all add: grip_log_def)

lemma grip_logWhen_proj [simp]:
  "job (grip_logWhen c l fs s) = job s" "world (grip_logWhen c l fs s) = world s"
  "trace (grip_logWhen c l fs s) = trace s"
  by (simp_all add: grip_logWhen_def)

lemma grip_WrapError_proj [simp]:
  "job (grip_WrapError l e fs s) = job s" "world (grip_WrapError l e fs s) = world s"
  "trace (grip_WrapError l e fs s) = trace s"
  by (simp_all add: grip_WrapError_def split: option.splits)

lemma perform_proj [simp]:
  "job (snd (perform ev f s)) = job s"
  "world (snd (perform ev f s)) = snd (f (world s))"
  "trace (snd (perform ev f s)) = trace s @ [ev]"
  "logs (snd (perform ev f s)) = logs s"
  "fst (perform ev f s) = fst (f (world s))"
  by (simp_all add: perform_def split: prod.splits)

lemma perform_eq:
  "perform ev f s = (r, s') \<Longrightarrow>
     job s' = job s \<and> world s' = snd (f (world s)) \<and> trace s' = trace s @ [ev] \<and> logs s' = logs s \<and> r = fst (f (world s))"
  by (auto simp: perform_def split: prod.splits)

lemma AddError_proj [simp]:
  "world (AddError e s) = world s" "trace (AddError e s) = trace s" "logs (AddError e s) = logs s"
  "Errors (job (AddError e s)) = Errors (job s) @ [e]"
  "Distro (job (AddError e s)) = Distro (job s)"
  "builder (job (AddError e s)) = builder (job s)"
  "Completed (job (AddError e s)) = Completed (job s)"
  by (simp_all add: AddError_def)

lemma extensionAlerts_proj [simp]:
  "job (extensionAlerts d ext ow s) = job s" "world (extensionAlerts d ext ow s) = world s"
  "trace (extensionAlerts d ext ow s) = trace s"
  by (simp_all add: extensionAlerts_def)

lemma overwriteOrRemove_job [simp]:
  "job (snd (overwriteOrRemove ops d f ext ow args s)) = job s"
  by (auto simp: overwriteOrRemove_def dest: perform_eq split: prod.splits)

lemma overwriteOrRemove_args:
  "prefix args (fst (overwriteOrRemove ops d f ext ow args s))"
  by (simp add: overwriteOrRemove_def split: prod.splits)

lemma invokeNotaryClient_job [simp]:
  "job (snd (invokeNotaryClient ops d t f args s)) = job s"
  by (simp add: invokeNotaryClient_def perform_def split: prod.splits option.splits)

lemma invokeNotaryClient_trace [simp]:
  "trace (snd (invokeNotaryClient ops d t f args s)) = trace s @ [EExec args (filepath_Dir f)]"
  by (simp add: invokeNotaryClient_def perform_def split: prod.splits option.splits)

lemma runNotaryClient_job [simp]:
  "job (snd (runNotaryClient ops d k t f ext ow s)) = job s"
  by (simp add: runNotaryClient_def split: prod.splits)
     (metis overwriteOrRemove_job extensionAlerts_proj(1) snd_conv)

lemma signFile_job [simp]: "job (snd (signFile ops f ext ow s)) = job s"
  by (simp add: signFile_def split: outcome.splits prod.splits option.splits)
     (metis runNotaryClient_job snd_conv)

subsection \<open>Signing\<close>

lemma notaryKeyAndToken_selected:
  assumes "Distro (job s) = Some d"
  shows "notaryKeyAndToken ops s = Return (selectedKey ops d s, selectedToken ops d s)"
proof (cases "os_Getenv ops (world s) ''NOTARY_KEY_NAME'' = []")
  case True
  with assms show ?thesis
    unfolding notaryKeyAndToken_def selectedKey_def selectedToken_def envKeyName_def legacyDeb_def Let_def
    by (cases "Type d = DEB \<and> (Series (release (job s)) = ''3.0'' \<or> Series (release (job s)) = ''2.6'')")
       (simp, simp, blast)
next
  case False
  then show ?thesis
    unfolding notaryKeyAndToken_def selectedKey_def selectedToken_def envKeyName_def legacyDeb_def Let_def
    by simp
qed

lemma runNotaryClient_exec:
  "\<exists>rest. last (trace (snd (runNotaryClient ops d k t f ext ow s))) =
      EExec ([''notary-client.py'', ''--key-name'', k, ''--auth-token'', t] @ rest) (filepath_Dir f)"
proof -
  obtain args s' where o: "overwriteOrRemove ops d f ext ow (notaryArgs (job s) k t ext)
             (extensionAlerts d ext ow s) = (args, s')"
    by (cases "overwriteOrRemove ops d f ext ow (notaryArgs (job s) k t ext) (extensionAlerts d ext ow s)")
  have "prefix (notaryArgs (job s) k t ext) args"
    using overwriteOrRemove_args[of "notaryArgs (job s) k t ext" ops d f ext ow "extensionAlerts d ext ow s"] o
    by simp
  then obtain zs where "args = notaryArgs (job s) k t ext @ zs"
    by (auto simp: prefix_def)
  then show ?thesis
    using o by (simp add: runNotaryClient_def notaryArgs_def)
qed

lemmas example_defs =
  start_def exampleJob_def exampleDistro_def exampleConf_def emptySim_def stableRelease_def
  nightlyRelease_def legacyRelease_def legacySigning_def stableSigning_def DEB_def RPM_def

lemmas sim_defs =
  simOps_def sim_Getenv_def sim_StatNotExist_def sim_MkdirAll_def sim_Remove_def sim_Rename_def
  sim_Link_def

text \<open>
  Claim C9. Every signing call that has a token runs the signer with the key chosen in
  this order: the key name of the environment when one is set; otherwise, for a DEB
  distro of series 3.0 or 2.6, the key \<open>richard\<close> with the token of
  \<^verbatim>\<open>NOTARY_TOKEN_DEB_LEGACY\<close>; otherwise \<open>server-\<close> followed by the stable
  release series.
\<close>

theorem signFile_key_selection:
  assumes "Distro (job s) = Some d" and "selectedToken ops d s \<noteq> []"
  shows "\<exists>rest. last (trace (snd (signFile ops f ext ow s))) =
      EExec ([''notary-client.py'', ''--key-name'', selectedKey ops d s,
              ''--auth-token'', selectedToken ops d s] @ rest) (filepath_Dir f)"
  using assms runNotaryClient_exec[of ops d "selectedKey ops d s" "selectedToken ops d s" f ext ow s]
  by (simp add: signFile_def notaryKeyAndToken_selected split: prod.splits) (metis snd_conv)

theorem signFile_key_selection_witness:
  "Distro (job legacySigning) = Some (exampleDistro DEB [''r1'']) \<and>
   selectedToken (simOps True) (exampleDistro DEB [''r1'']) legacySigning = ''legacy-token'' \<and>
   selectedKey (simOps True) (exampleDistro DEB [''r1'']) legacySigning = ''richard'' \<and>
   (\<exists>rest. last (trace (snd (signFile (simOps True) ''/ws/r1/3.0/pkg.deb'' ''deb'' False legacySigning))) =
      EExec ([''notary-client.py'', ''--key-name'', ''richard'', ''--auth-token'', ''legacy-token''] @ rest)
        ''/ws/r1/3.0'')"
proof -
  have d: "Distro (job legacySigning) = Some (exampleDistro DEB [''r1''])"
    by (simp add: example_defs)
  have t: "selectedToken (simOps True) (exampleDistro DEB [''r1'']) legacySigning = ''legacy-token''"
    by (simp add: selectedToken_def envKeyName_def legacyDeb_def example_defs sim_defs)
  have k: "selectedKey (simOps True) (exampleDistro DEB [''r1'']) legacySigning = ''richard''"
    by (simp add: selectedKey_def envKeyName_def legacyDeb_def example_defs sim_defs)
  have dir: "filepath_Dir ''/ws/r1/3.0/pkg.deb'' = ''/ws/r1/3.0''"
    by code_simp
  from t have "selectedToken (simOps True) (exampleDistro DEB [''r1'']) legacySigning \<noteq> []" by simp
  from signFile_key_selection[OF d this, of "''/ws/r1/3.0/pkg.deb''" "''deb''" False]
  show ?thesis using d t k dir by simp
qed

text \<open>
  On every path, when the token the call selects is empty, \<^verbatim>\<open>signFile\<close> returns one
  fixed error, whose text mentions \<^verbatim>\<open>NOTARY_TOKEN\<close>, and leaves the state as it was:
  nothing is added to the trace, so no process is started and no file or network
  operation is made.
\<close>

lemma signFile_missing_token:
  assumes "Distro (job s) = Some d" and "selectedToken ops d s = []"
  shows "signFile ops f ext ow s = (Return (Some missingTokenError), s) \<and>
         missingTokenError =
           ''the notary service auth token (NOTARY_TOKEN) is not defined in the environment'' @ [CHR 0x0A]"
  using assms
  by (simp add: signFile_def notaryKeyAndToken_selected missingTokenError_def fmt_Sprintln2_def)

lemma signFile_missing_token_example:
  "Distro (job (stableSigning [] ([], None))) = Some (exampleDistro RPM [''r1'']) \<and>
   selectedToken (simOps True) (exampleDistro RPM [''r1'']) (stableSigning [] ([], None)) = [] \<and>
   fst (signFile (simOps True) ''/ws/r1/4.0/pkg.rpm'' [] True (stableSigning [] ([], None))) =
     Return (Some missingTokenError) \<and>
   trace (snd (signFile (simOps True) ''/ws/r1/4.0/pkg.rpm'' [] True (stableSigning [] ([], None)))) = []"
proof -
  have d: "Distro (job (stableSigning [] ([], None))) = Some (exampleDistro RPM [''r1''])"
    by (simp add: example_defs)
  have t: "selectedToken (simOps True) (exampleDistro RPM [''r1'']) (stableSigning [] ([], None)) = []"
    by (simp add: selectedToken_def envKeyName_def legacyDeb_def example_defs sim_defs)
  have "trace (stableSigning [] ([], None)) = []"
    by (simp add: example_defs)
  with signFile_missing_token[OF d t, of "''/ws/r1/4.0/pkg.rpm''" "[]" True]
  show ?thesis using d t by simp
qed

text \<open>
  Claim C5, at a concrete input: the signer succeeds and prints a line, and the
  output log of the job has no entry for the file afterwards.
\<close>

theorem signFile_output_not_retained:
  "fst (signFile (simOps True) ''/ws/r1/4.0/pkg.rpm'' [] True signedOk) = Return None \<and>
   trace (snd (signFile (simOps True) ''/ws/r1/4.0/pkg.rpm'' [] True signedOk)) =
     [EExec [''notary-client.py'', ''--key-name'', ''server-4.0'', ''--auth-token'', ''tok'',
             ''--comment'', [CHR 0x22] @ ''curator package signing'' @ [CHR 0x22],
             ''--notary-url'', ''https://notary'', ''--archive-file-ext'', [], ''--outputs'', ''sig'',
             ''--package-file-suffix'', [], ''pkg.rpm'']
        ''/ws/r1/4.0''] \<and>
   Output (job (snd (signFile (simOps True) ''/ws/r1/4.0/pkg.rpm'' [] True signedOk)))
     ''/ws/r1/4.0/pkg.rpm'' = None"
  by code_simp

subsection \<open>Package injection\<close>

lemma overwriteOrRemove_link [simp]:
  "ELink p m \<in> set (trace (snd (overwriteOrRemove ops d f ext ow args s))) \<longleftrightarrow>
   ELink p m \<in> set (trace s)"
  by (simp add: overwriteOrRemove_def split: prod.splits) (auto dest!: perform_eq)

lemma runNotaryClient_link [simp]:
  "ELink p m \<in> set (trace (snd (runNotaryClient ops d k t f ext ow s))) \<longleftrightarrow>
   ELink p m \<in> set (trace s)"
proof -
  obtain args s' where o: "overwriteOrRemove ops d f ext ow (notaryArgs (job s) k t ext)
             (extensionAlerts d ext ow s) = (args, s')"
    by (cases "overwriteOrRemove ops d f ext ow (notaryArgs (job s) k t ext) (extensionAlerts d ext ow s)")
  from overwriteOrRemove_link[of p m ops d f ext ow "notaryArgs (job s) k t ext" "extensionAlerts d ext ow s"]
  show ?thesis using o by (simp add: runNotaryClient_def)
qed

lemma signFile_link [simp]:
  "ELink p m \<in> set (trace (snd (signFile ops f ext ow s))) \<longleftrightarrow> ELink p m \<in> set (trace s)"
proof (cases "\<exists>k t d. notaryKeyAndToken ops s = Return (k, t) \<and> t \<noteq> [] \<and> Distro (job s) = Some d")
  case True
  then obtain k t d where "notaryKeyAndToken ops s = Return (k, t)" "t \<noteq> []" "Distro (job s) = Some d"
    by blast
  then have "snd (signFile ops f ext ow s) = snd (runNotaryClient ops d k t f ext ow s)"
    by (simp add: signFile_def split: prod.splits)
  then show ?thesis by simp
next
  case False
  then have "snd (signFile ops f ext ow s) = s"
    by (auto simp: signFile_def split: outcome.splits prod.splits option.splits)
  then show ?thesis by simp
qed

lemma ensureDest_job [simp]: "job (snd (ensureDest ops dest s)) = job s"
  by (simp add: ensureDest_def)

lemma ensureDest_link [simp]:
  "ELink p m \<in> set (trace (snd (ensureDest ops dest s))) \<longleftrightarrow> ELink p m \<in> set (trace s)"
  by (simp add: ensureDest_def)

lemma renameDevelopment_job [simp]: "job (snd (renameDevelopment ops d pkg mirror s)) = job s"
  by (simp add: renameDevelopment_def Let_def split: prod.splits option.splits)
     (auto dest!: perform_eq)

lemma renameDevelopment_link [simp]:
  "ELink p m \<in> set (trace (snd (renameDevelopment ops d pkg mirror s))) \<longleftrightarrow> ELink p m \<in> set (trace s)"
  by (simp add: renameDevelopment_def Let_def split: prod.splits option.splits)
     (auto dest!: perform_eq)

lemma startSigner_job [simp]: "job (sys (snd (startSigner ops f ls))) = job (sys ls)"
  by (simp add: startSigner_def split: prod.splits outcome.splits)
     (metis signFile_job snd_conv)

lemma startSigner_link [simp]:
  "ELink p m \<in> set (trace (sys (snd (startSigner ops f ls)))) \<longleftrightarrow> ELink p m \<in> set (trace (sys ls))"
  by (simp add: startSigner_def split: prod.splits outcome.splits)
     (metis signFile_link snd_conv)

lemma linkMirror_job [simp]: "job (sys (snd (linkMirror ops d dest pkg mirror ls))) = job (sys ls)"
proof (cases "os_StatNotExist ops (world (sys ls)) mirror")
  case False
  then show ?thesis by (simp add: linkMirror_def)
next
  case True
  then show ?thesis
    by (simp add: linkMirror_def split: prod.splits option.splits) (auto dest!: perform_eq)
qed

lemma linkMirror_link:
  "ELink p m \<in> set (trace (sys (snd (linkMirror ops d dest pkg mirror ls)))) \<Longrightarrow>
   ELink p m \<in> set (trace (sys ls)) \<or> p = pkg"
proof (cases "os_StatNotExist ops (world (sys ls)) mirror")
  case False
  then show "ELink p m \<in> set (trace (sys (snd (linkMirror ops d dest pkg mirror ls)))) \<Longrightarrow> ?thesis"
    by (simp add: linkMirror_def)
next
  case True
  then show "ELink p m \<in> set (trace (sys (snd (linkMirror ops d dest pkg mirror ls)))) \<Longrightarrow> ?thesis"
    by (simp add: linkMirror_def split: prod.splits option.splits if_splits) (auto dest!: perform_eq)
qed

lemma linkPackage_job [simp]: "job (sys (snd (linkPackage ops dest pkg ls))) = job (sys ls)"
proof (cases "Distro (job (sys ls))")
  case None
  then show ?thesis by (simp add: linkPackage_def)
next
  case (Some d)
  obtain r s1 where e: "ensureDest ops dest (sys ls) = (r, s1)" by (cases "ensureDest ops dest (sys ls)")
  then have j1: "job s1 = job (sys ls)" using ensureDest_job[of ops dest "sys ls"] by simp
  obtain r2 s2 where n: "renameDevelopment ops d pkg (filepath_Join dest (filepath_Base pkg)) s1 = (r2, s2)"
    by (cases "renameDevelopment ops d pkg (filepath_Join dest (filepath_Base pkg)) s1")
  then have j2: "job s2 = job s1"
    using renameDevelopment_job[of ops d pkg "filepath_Join dest (filepath_Base pkg)" s1] by simp
  show ?thesis
    using Some e n j1 j2
    by (simp add: linkPackage_def split: option.splits sum.splits)
qed

lemma linkPackage_link:
  assumes "ELink p m \<in> set (trace (sys (snd (linkPackage ops dest pkg ls))))"
  shows "ELink p m \<in> set (trace (sys ls)) \<or> p = pkg"
proof (cases "Distro (job (sys ls))")
  case None
  then show ?thesis using assms by (simp add: linkPackage_def)
next
  case (Some d)
  obtain r s1 where e: "ensureDest ops dest (sys ls) = (r, s1)" by (cases "ensureDest ops dest (sys ls)")
  then have j1: "ELink p m \<in> set (trace s1) \<longleftrightarrow> ELink p m \<in> set (trace (sys ls))"
    using ensureDest_link[of p m ops dest "sys ls"] by simp
  obtain r2 s2 where n: "renameDevelopment ops d pkg (filepath_Join dest (filepath_Base pkg)) s1 = (r2, s2)"
    by (cases "renameDevelopment ops d pkg (filepath_Join dest (filepath_Base pkg)) s1")
  then have j2: "ELink p m \<in> set (trace s2) \<longleftrightarrow> ELink p m \<in> set (trace s1)"
    using renameDevelopment_link[of p m ops d pkg "filepath_Join dest (filepath_Base pkg)" s1] by simp
  show ?thesis
    using Some e n j1 j2 assms
      linkMirror_link[of p m ops d dest pkg _ "ls\<lparr>sys := s2\<rparr>"]
    by (auto simp: linkPackage_def split: option.splits sum.splits if_splits)
qed

lemma linkPackage_skip:
  "Distro (job (sys ls)) = Some d \<Longrightarrow> Type d = DEB \<Longrightarrow> \<not> strings_HasSuffix pkg ''.deb'' \<Longrightarrow>
   linkPackage ops dest pkg ls = (Next, ls)"
  by (simp add: linkPackage_def)

lemma linkLoop_job [simp]: "job (sys (snd (linkLoop ops dest pkgs ls))) = job (sys ls)"
proof (induction pkgs arbitrary: ls)
  case Nil
  then show ?case by simp
next
  case (Cons pkg pkgs)
  obtain fl ls' where l: "linkPackage ops dest pkg ls = (fl, ls')" by (cases "linkPackage ops dest pkg ls")
  then have "job (sys ls') = job (sys ls)" using linkPackage_job[of ops dest pkg ls] by simp
  then show ?case using l Cons.IH[of ls'] by (cases fl) simp_all
qed

lemma linkLoop_link:
  "ELink p m \<in> set (trace (sys (snd (linkLoop ops dest pkgs ls)))) \<Longrightarrow>
   ELink p m \<in> set (trace (sys ls)) \<or> p \<in> set pkgs"
proof (induction pkgs arbitrary: ls)
  case Nil
  then show ?case by simp
next
  case (Cons pkg pkgs)
  obtain fl ls' where l: "linkPackage ops dest pkg ls = (fl, ls')" by (cases "linkPackage ops dest pkg ls")
  then have step: "ELink p m \<in> set (trace (sys ls')) \<Longrightarrow> ELink p m \<in> set (trace (sys ls)) \<or> p = pkg"
    using linkPackage_link[of p m ops dest pkg ls] by simp
  show ?case
  proof (cases fl)
    case Next
    then have "ELink p m \<in> set (trace (sys (snd (linkLoop ops dest pkgs ls'))))"
      using Cons.prems l by simp
    then have "ELink p m \<in> set (trace (sys ls')) \<or> p \<in> set pkgs" by (rule Cons.IH)
    then show ?thesis using step by auto
  next
    case (ReturnError e)
    then show ?thesis using Cons.prems l step by auto
  next
    case Crash
    then show ?thesis using Cons.prems l step by auto
  qed
qed

lemma linkLoop_filter_deb:
  "Distro (job (sys ls)) = Some d \<Longrightarrow> Type d = DEB \<Longrightarrow>
   linkLoop ops dest (filter (\<lambda>p. strings_HasSuffix p ''.deb'') pkgs) ls = linkLoop ops dest pkgs ls"
proof (induction pkgs arbitrary: ls)
  case Nil
  then show ?case by simp
next
  case (Cons pkg pkgs)
  show ?case
  proof (cases "strings_HasSuffix pkg ''.deb''")
    case False
    then show ?thesis
      using Cons.prems Cons.IH[of ls] by (simp add: linkPackage_skip)
  next
    case True
    obtain fl ls' where l: "linkPackage ops dest pkg ls = (fl, ls')" by (cases "linkPackage ops dest pkg ls")
    then have "job (sys ls') = job (sys ls)" using linkPackage_job[of ops dest pkg ls] by simp
    then have "Distro (job (sys ls')) = Some d" using Cons.prems by simp
    then show ?thesis using True l Cons.IH[of ls'] Cons.prems by (cases fl) simp_all
  qed
qed

lemma waitSigners_link [simp]:
  "ELink p m \<in> set (trace (snd (waitSigners ops fs s))) \<longleftrightarrow> ELink p m \<in> set (trace s)"
proof (induction fs arbitrary: s)
  case Nil
  then show ?case by simp
next
  case (Cons f fs)
  obtain r s' where x: "signFile ops f [] True s = (r, s')" by (cases "signFile ops f [] True s")
  then have "ELink p m \<in> set (trace s') \<longleftrightarrow> ELink p m \<in> set (trace s)"
    using signFile_link[of p m ops f "[]" True s] by simp
  then show ?case using x Cons.IH[of s'] by (cases r) simp_all
qed

lemma linkPackagesOver_link:
  assumes "ELink p m \<in> set (trace (snd (linkPackagesOver ops dest pkgs s)))"
  shows "ELink p m \<in> set (trace s) \<or> p \<in> set pkgs"
proof -
  obtain fl ls where l: "linkLoop ops dest pkgs \<lparr>sys = s, catcher = [], waiting = []\<rparr> = (fl, ls)"
    by (cases "linkLoop ops dest pkgs \<lparr>sys = s, catcher = [], waiting = []\<rparr>")
  obtain c s' where w: "waitSigners ops (waiting ls) (sys ls) = (c, s')"
    by (cases "waitSigners ops (waiting ls) (sys ls)")
  have "snd (linkPackagesOver ops dest pkgs s) = s'"
    using l w by (simp add: linkPackagesOver_def split: flow.splits)
  then have "ELink p m \<in> set (trace s')" using assms by simp
  then have "ELink p m \<in> set (trace (sys ls))"
    using w waitSigners_link[of p m ops "waiting ls" "sys ls"] by simp
  then show ?thesis
    using l linkLoop_link[of p m ops dest pkgs "\<lparr>sys = s, catcher = [], waiting = []\<rparr>"] by simp
qed

text \<open>
  Claim C7. For a DEB distro \<^verbatim>\<open>linkPackages\<close> does exactly what it does on the list
  with every path that does not end in \<open>.deb\<close> taken out: such a path changes neither
  the result (so it adds no error) nor the state, and no link whose source is such a
  path is made.
\<close>

theorem linkPackages_skips_non_deb:
  assumes "Distro (job s) = Some d" and "Type d = DEB"
  shows "linkPackages ops dest s =
           linkPackagesOver ops dest (filter (\<lambda>p. strings_HasSuffix p ''.deb'') (PackagePaths (job s))) s \<and>
         (\<forall>p m. ELink p m \<in> set (trace (snd (linkPackages ops dest s))) \<longrightarrow>
                ELink p m \<in> set (trace s) \<or> strings_HasSuffix p ''.deb'')"
proof
  show eq: "linkPackages ops dest s =
           linkPackagesOver ops dest (filter (\<lambda>p. strings_HasSuffix p ''.deb'') (PackagePaths (job s))) s"
    using assms
      linkLoop_filter_deb[of "\<lparr>sys = s, catcher = [], waiting = []\<rparr>" d ops dest "PackagePaths (job s)"]
    by (simp add: linkPackages_def linkPackagesOver_def)
  show "\<forall>p m. ELink p m \<in> set (trace (snd (linkPackages ops dest s))) \<longrightarrow>
                ELink p m \<in> set (trace s) \<or> strings_HasSuffix p ''.deb''"
    using linkPackagesOver_link[of _ _ ops dest
            "filter (\<lambda>p. strings_HasSuffix p ''.deb'') (PackagePaths (job s))" s]
    unfolding eq by auto
qed

theorem linkPackages_skips_non_deb_witness:
  "Distro (job debStaging) = Some (exampleDistro DEB [''r1'']) \<and>
   Type (exampleDistro DEB [''r1'']) = DEB \<and>
   linkPackages (simOps True) ''/ws/r1/4.0'' debStaging =
     linkPackagesOver (simOps True) ''/ws/r1/4.0''
       (filter (\<lambda>p. strings_HasSuffix p ''.deb'') (PackagePaths (job debStaging))) debStaging \<and>
   filter (\<lambda>p. strings_HasSuffix p ''.deb'') (PackagePaths (job debStaging)) = [''/in/pkg_4.0.1_amd64.deb''] \<and>
   fst (linkPackages (simOps True) ''/ws/r1/4.0'' debStaging) = Return None \<and>
   trace (snd (linkPackages (simOps True) ''/ws/r1/4.0'' debStaging)) =
     [EMkdirAll ''/ws/r1/4.0'', ELink ''/in/pkg_4.0.1_amd64.deb'' ''/ws/r1/4.0/pkg_4.0.1_amd64.deb'']"
proof -
  have d: "Distro (job debStaging) = Some (exampleDistro DEB [''r1''])"
    by (simp add: debStaging_def example_defs)
  have t: "Type (exampleDistro DEB [''r1'']) = DEB"
    by (simp add: exampleDistro_def)
  have f: "filter (\<lambda>p. strings_HasSuffix p ''.deb'') (PackagePaths (job debStaging)) = [''/in/pkg_4.0.1_amd64.deb'']"
    by code_simp
  have r: "fst (linkPackages (simOps True) ''/ws/r1/4.0'' debStaging) = Return None"
    by code_simp
  have tr: "trace (snd (linkPackages (simOps True) ''/ws/r1/4.0'' debStaging)) =
     [EMkdirAll ''/ws/r1/4.0'', ELink ''/in/pkg_4.0.1_amd64.deb'' ''/ws/r1/4.0/pkg_4.0.1_amd64.deb'']"
    by code_simp
  from linkPackages_skips_non_deb[OF d t, of "simOps True" "''/ws/r1/4.0''"]
  show ?thesis using d t f r tr by simp
qed

lemma overwriteOrRemove_ext:
  "\<exists>evs. trace (snd (overwriteOrRemove ops d f ext ow args s)) = trace s @ evs"
  by (simp add: overwriteOrRemove_def split: prod.splits) (auto dest!: perform_eq)

lemma runNotaryClient_ext:
  "\<exists>evs. trace (snd (runNotaryClient ops d k t f ext ow s)) = trace s @ evs"
proof -
  obtain args s' where o: "overwriteOrRemove ops d f ext ow (notaryArgs (job s) k t ext)
             (extensionAlerts d ext ow s) = (args, s')"
    by (cases "overwriteOrRemove ops d f ext ow (notaryArgs (job s) k t ext) (extensionAlerts d ext ow s)")
  from overwriteOrRemove_ext[of ops d f ext ow "notaryArgs (job s) k t ext" "extensionAlerts d ext ow s"]
  obtain evs where "trace s' = trace s @ evs" using o by auto
  then show ?thesis using o by (simp add: runNotaryClient_def)
qed

lemma signFile_ext: "\<exists>evs. trace (snd (signFile ops f ext ow s)) = trace s @ evs"
proof (cases "\<exists>k t d. notaryKeyAndToken ops s = Return (k, t) \<and> t \<noteq> [] \<and> Distro (job s) = Some d")
  case True
  then obtain k t d where "notaryKeyAndToken ops s = Return (k, t)" "t \<noteq> []" "Distro (job s) = Some d"
    by blast
  then have "snd (signFile ops f ext ow s) = snd (runNotaryClient ops d k t f ext ow s)"
    by (simp add: signFile_def split: prod.splits)
  then show ?thesis using runNotaryClient_ext[of ops d k t f ext ow s] by simp
next
  case False
  then have "snd (signFile ops f ext ow s) = s"
    by (auto simp: signFile_def split: outcome.splits prod.splits option.splits)
  then show ?thesis by simp
qed

lemma startSigner_ext:
  "\<exists>evs. trace (sys (snd (startSigner ops f ls))) = trace (sys ls) @ evs"
proof (cases "signedBeforeResolve ops f")
  case False
  then show ?thesis by (simp add: startSigner_def)
next
  case True
  obtain r s' where x: "signFile ops f [] True (sys ls) = (r, s')"
    by (cases "signFile ops f [] True (sys ls)")
  then obtain evs where "trace s' = trace (sys ls) @ evs"
    using signFile_ext[of ops f "[]" True "sys ls"] by auto
  then show ?thesis using True x by (cases r) (simp_all add: startSigner_def)
qed

lemma linkMirror_missing:
  assumes "os_StatNotExist ops (world (sys ls)) mirror"
  shows "\<exists>evs. trace (sys (snd (linkMirror ops d dest pkg mirror ls))) =
           trace (sys ls) @ ELink pkg mirror # evs"
proof -
  let ?s0 = "grip_log Debug
                   [(''op'', ''copying packages to local staging''), (''from'', pkg), (''to'', dest),
                    (''repo'', Name d), (''version'', VersionString (release (job (sys ls))))]
                   (sys ls)"
  obtain r s1 where p: "perform (ELink pkg mirror) (os_Link ops pkg mirror) ?s0 = (r, s1)"
    by (cases "perform (ELink pkg mirror) (os_Link ops pkg mirror) ?s0")
  then have t1: "trace s1 = trace (sys ls) @ [ELink pkg mirror]"
    by (auto dest!: perform_eq)
  show ?thesis
  proof (cases "r = None \<and> Type d = RPM")
    case True
    obtain evs where "trace (sys (snd (startSigner ops mirror (ls\<lparr>sys := s1\<rparr>)))) = trace s1 @ evs"
      using startSigner_ext[of ops mirror "ls\<lparr>sys := s1\<rparr>"] by auto
    then show ?thesis using assms p t1 True by (simp add: linkMirror_def)
  next
    case False
    then show ?thesis using assms p t1 by (auto simp: linkMirror_def split: option.splits)
  qed
qed

lemma linkMirror_link_fails:
  assumes "os_StatNotExist ops (world (sys ls)) mirror"
    and "fst (os_Link ops pkg mirror (world (sys ls))) = Some e"
  shows "fst (linkMirror ops d dest pkg mirror ls) = Next \<and>
         catcher (snd (linkMirror ops d dest pkg mirror ls)) =
           catcher ls @ [errors_Wrap e (''problem copying package '' @ pkg @ '' to '' @ mirror)] \<and>
         trace (sys (snd (linkMirror ops d dest pkg mirror ls))) = trace (sys ls) @ [ELink pkg mirror]"
proof -
  let ?s0 = "grip_log Debug
                   [(''op'', ''copying packages to local staging''), (''from'', pkg), (''to'', dest),
                    (''repo'', Name d), (''version'', VersionString (release (job (sys ls))))]
                   (sys ls)"
  obtain r s1 where p: "perform (ELink pkg mirror) (os_Link ops pkg mirror) ?s0 = (r, s1)"
    by (cases "perform (ELink pkg mirror) (os_Link ops pkg mirror) ?s0")
  then have "trace s1 = trace (sys ls) @ [ELink pkg mirror]" and "r = Some e"
    using assms(2) by (auto dest!: perform_eq)
  then show ?thesis using assms(1) p by (simp add: linkMirror_def)
qed

lemma renameDevelopment_none:
  assumes "\<not> IsDevelopmentBuild (release (job s)) \<or>
           (\<not> os_StatNotExist ops (world s) mirror \<and>
            strings_Replace1 mirror (VersionString (release (job s))) (Series (release (job s))) = mirror)"
  shows "renameDevelopment ops d pkg mirror s = (Inr mirror, s)"
  using assms by (auto simp: renameDevelopment_def Let_def)

lemma linkPackage_reaches_linkMirror:
  assumes "Distro (job (sys ls)) = Some d"
    and "Type d \<noteq> DEB \<or> strings_HasSuffix pkg ''.deb''"
    and "\<not> os_StatNotExist ops (world (sys ls)) dest"
    and "renameDevelopment ops d pkg (filepath_Join dest (filepath_Base pkg)) (sys ls) =
           (Inr (filepath_Join dest (filepath_Base pkg)), sys ls)"
  shows "linkPackage ops dest pkg ls = linkMirror ops d dest pkg (filepath_Join dest (filepath_Base pkg)) ls"
  using assms by (auto simp: linkPackage_def ensureDest_def)

text \<open>
  Where the rename of a development build does not interfere, injection is idempotent
  per destination. This is for a candidate that is not skipped, whose staging
  directory exists and to which no development rename applies (the release is not a
  development build, or replacing the version by the series leaves the destination
  path as it is). When the destination exists, the iteration does nothing: no link, no
  error, the same state. For a release that is not a development build, when the
  destination is missing the next operation is the hard link of the source to the
  destination, and a failure of that link is recorded as the error of this package.
\<close>

lemma linkPackage_existing_destination:
  assumes "Distro (job (sys ls)) = Some d"
    and "Type d \<noteq> DEB \<or> strings_HasSuffix pkg ''.deb''"
    and "\<not> os_StatNotExist ops (world (sys ls)) dest"
    and "\<not> IsDevelopmentBuild (release (job (sys ls))) \<or>
         strings_Replace1 (filepath_Join dest (filepath_Base pkg))
           (VersionString (release (job (sys ls)))) (Series (release (job (sys ls)))) =
         filepath_Join dest (filepath_Base pkg)"
  shows "(\<not> os_StatNotExist ops (world (sys ls)) (filepath_Join dest (filepath_Base pkg)) \<longrightarrow>
            linkPackage ops dest pkg ls = (Next, ls)) \<and>
         (os_StatNotExist ops (world (sys ls)) (filepath_Join dest (filepath_Base pkg)) \<and>
          \<not> IsDevelopmentBuild (release (job (sys ls))) \<longrightarrow>
            take (Suc (length (trace (sys ls)))) (trace (sys (snd (linkPackage ops dest pkg ls)))) =
              trace (sys ls) @ [ELink pkg (filepath_Join dest (filepath_Base pkg))] \<and>
            (\<forall>e. fst (os_Link ops pkg (filepath_Join dest (filepath_Base pkg)) (world (sys ls))) = Some e \<longrightarrow>
               fst (linkPackage ops dest pkg ls) = Next \<and>
               catcher (snd (linkPackage ops dest pkg ls)) =
                 catcher ls @ [errors_Wrap e (''problem copying package '' @ pkg @ '' to '' @
                                              filepath_Join dest (filepath_Base pkg))] \<and>
               trace (sys (snd (linkPackage ops dest pkg ls))) =
                 trace (sys ls) @ [ELink pkg (filepath_Join dest (filepath_Base pkg))]))"
proof (intro conjI impI allI)
  let ?mirror = "filepath_Join dest (filepath_Base pkg)"
  {
    assume ex: "\<not> os_StatNotExist ops (world (sys ls)) ?mirror"
    have "renameDevelopment ops d pkg ?mirror (sys ls) = (Inr ?mirror, sys ls)"
      using assms(4) ex by (intro renameDevelopment_none) auto
    then have "linkPackage ops dest pkg ls = linkMirror ops d dest pkg ?mirror ls"
      using assms by (intro linkPackage_reaches_linkMirror) auto
    then show "linkPackage ops dest pkg ls = (Next, ls)"
      using ex by (simp add: linkMirror_def)
  }
  {
    assume mis: "os_StatNotExist ops (world (sys ls)) ?mirror \<and> \<not> IsDevelopmentBuild (release (job (sys ls)))"
    have "renameDevelopment ops d pkg ?mirror (sys ls) = (Inr ?mirror, sys ls)"
      using mis by (intro renameDevelopment_none) auto
    then have eq: "linkPackage ops dest pkg ls = linkMirror ops d dest pkg ?mirror ls"
      using assms by (intro linkPackage_reaches_linkMirror) auto
    obtain evs where "trace (sys (snd (linkMirror ops d dest pkg ?mirror ls))) =
           trace (sys ls) @ ELink pkg ?mirror # evs"
      using linkMirror_missing[of ops ls ?mirror d dest pkg] mis by auto
    then show "take (Suc (length (trace (sys ls)))) (trace (sys (snd (linkPackage ops dest pkg ls)))) =
              trace (sys ls) @ [ELink pkg ?mirror]"
      using eq by simp
    fix e assume "fst (os_Link ops pkg ?mirror (world (sys ls))) = Some e"
    then have l: "fst (linkMirror ops d dest pkg ?mirror ls) = Next \<and>
         catcher (snd (linkMirror ops d dest pkg ?mirror ls)) =
           catcher ls @ [errors_Wrap e (''problem copying package '' @ pkg @ '' to '' @ ?mirror)] \<and>
         trace (sys (snd (linkMirror ops d dest pkg ?mirror ls))) = trace (sys ls) @ [ELink pkg ?mirror]"
      using mis by (intro linkMirror_link_fails) auto
    show "fst (linkPackage ops dest pkg ls) = Next" using l eq by simp
    show "catcher (snd (linkPackage ops dest pkg ls)) =
                 catcher ls @ [errors_Wrap e (''problem copying package '' @ pkg @ '' to '' @ ?mirror)]"
      using l eq by simp
    show "trace (sys (snd (linkPackage ops dest pkg ls))) = trace (sys ls) @ [ELink pkg ?mirror]"
      using l eq by simp
  }
qed

lemma linkPackage_existing_destination_example:
  "filepath_Join ''/ws/r1/4.0'' (filepath_Base ''/in/pkg_4.0.1_amd64.deb'') = ''/ws/r1/4.0/pkg_4.0.1_amd64.deb'' \<and>
   Distro (job (sys debRerun)) = Some (exampleDistro DEB [''r1'']) \<and>
   strings_HasSuffix ''/in/pkg_4.0.1_amd64.deb'' ''.deb'' \<and>
   \<not> os_StatNotExist (simOps True) (world (sys debRerun)) ''/ws/r1/4.0'' \<and>
   \<not> IsDevelopmentBuild (release (job (sys debRerun))) \<and>
   \<not> os_StatNotExist (simOps True) (world (sys debRerun)) ''/ws/r1/4.0/pkg_4.0.1_amd64.deb'' \<and>
   linkPackage (simOps True) ''/ws/r1/4.0'' ''/in/pkg_4.0.1_amd64.deb'' debRerun = (Next, debRerun) \<and>
   Distro (job (sys debNoSource)) = Some (exampleDistro DEB [''r1'']) \<and>
   \<not> os_StatNotExist (simOps True) (world (sys debNoSource)) ''/ws/r1/4.0'' \<and>
   \<not> IsDevelopmentBuild (release (job (sys debNoSource))) \<and>
   os_StatNotExist (simOps True) (world (sys debNoSource)) ''/ws/r1/4.0/pkg_4.0.1_amd64.deb'' \<and>
   fst (os_Link (simOps True) ''/in/pkg_4.0.1_amd64.deb'' ''/ws/r1/4.0/pkg_4.0.1_amd64.deb''
          (world (sys debNoSource))) =
     Some ''link /in/pkg_4.0.1_amd64.deb /ws/r1/4.0/pkg_4.0.1_amd64.deb: no such file or directory'' \<and>
   fst (linkPackage (simOps True) ''/ws/r1/4.0'' ''/in/pkg_4.0.1_amd64.deb'' debNoSource) = Next \<and>
   catcher (snd (linkPackage (simOps True) ''/ws/r1/4.0'' ''/in/pkg_4.0.1_amd64.deb'' debNoSource)) =
     [errors_Wrap ''link /in/pkg_4.0.1_amd64.deb /ws/r1/4.0/pkg_4.0.1_amd64.deb: no such file or directory''
        (''problem copying package '' @ ''/in/pkg_4.0.1_amd64.deb'' @ '' to '' @
         ''/ws/r1/4.0/pkg_4.0.1_amd64.deb'')] \<and>
   trace (sys (snd (linkPackage (simOps True) ''/ws/r1/4.0'' ''/in/pkg_4.0.1_amd64.deb'' debNoSource))) =
     [ELink ''/in/pkg_4.0.1_amd64.deb'' ''/ws/r1/4.0/pkg_4.0.1_amd64.deb'']"
proof -
  let ?pkg = "''/in/pkg_4.0.1_amd64.deb''" and ?dest = "''/ws/r1/4.0''"
  let ?e = "''link /in/pkg_4.0.1_amd64.deb /ws/r1/4.0/pkg_4.0.1_amd64.deb: no such file or directory''"
  have m: "filepath_Join ?dest (filepath_Base ?pkg) = ''/ws/r1/4.0/pkg_4.0.1_amd64.deb''"
    by code_simp
  have d1: "Distro (job (sys debRerun)) = Some (exampleDistro DEB [''r1''])" by code_simp
  have d2: "Distro (job (sys debNoSource)) = Some (exampleDistro DEB [''r1''])" by code_simp
  have sfx: "strings_HasSuffix ?pkg ''.deb''" by code_simp
  have e1: "\<not> os_StatNotExist (simOps True) (world (sys debRerun)) ?dest" by code_simp
  have e2: "\<not> os_StatNotExist (simOps True) (world (sys debNoSource)) ?dest" by code_simp
  have n1: "\<not> IsDevelopmentBuild (release (job (sys debRerun)))" by code_simp
  have n2: "\<not> IsDevelopmentBuild (release (job (sys debNoSource)))" by code_simp
  have x1: "\<not> os_StatNotExist (simOps True) (world (sys debRerun)) (filepath_Join ?dest (filepath_Base ?pkg))"
    by code_simp
  have x2: "os_StatNotExist (simOps True) (world (sys debNoSource)) (filepath_Join ?dest (filepath_Base ?pkg))"
    by code_simp
  have l2: "fst (os_Link (simOps True) ?pkg (filepath_Join ?dest (filepath_Base ?pkg))
                  (world (sys debNoSource))) = Some ?e"
    by code_simp
  have t0: "trace (sys debNoSource) = []" and c0: "catcher debNoSource = []" by code_simp+
  from linkPackage_existing_destination[of debRerun "exampleDistro DEB [''r1'']" ?pkg "simOps True" ?dest]
  have A: "linkPackage (simOps True) ?dest ?pkg debRerun = (Next, debRerun)"
    using d1 sfx e1 n1 x1 by blast
  from linkPackage_existing_destination[of debNoSource "exampleDistro DEB [''r1'']" ?pkg "simOps True" ?dest]
  have B: "fst (linkPackage (simOps True) ?dest ?pkg debNoSource) = Next \<and>
           catcher (snd (linkPackage (simOps True) ?dest ?pkg debNoSource)) =
             catcher debNoSource @ [errors_Wrap ?e (''problem copying package '' @ ?pkg @ '' to '' @
                                              filepath_Join ?dest (filepath_Base ?pkg))] \<and>
           trace (sys (snd (linkPackage (simOps True) ?dest ?pkg debNoSource))) =
             trace (sys debNoSource) @ [ELink ?pkg (filepath_Join ?dest (filepath_Base ?pkg))]"
    using d2 sfx e2 n2 x2 l2 by blast
  show ?thesis
    using m d1 d2 sfx e1 e2 n1 n2 x1 x2 l2 A B t0 c0 by (simp only: append_Nil simp_thms)
qed

text \<open>
  Claim C6, evaluated: a development build is staged again after its destination got
  the series name. The renamed destination exists, so the call should do nothing; it
  calls \<^verbatim>\<open>os.Remove\<close> and \<^verbatim>\<open>os.Rename\<close> on the version-named path, which is not
  there, and returns the error of the failed rename.
\<close>

theorem linkPackages_rerun_of_development_build_fails:
  "\<not> os_StatNotExist (simOps True) (world nightlyRerun) ''/ws/r1/development/pkg-4.1.rpm'' \<and>
   fst (linkPackages (simOps True) ''/ws/r1/development'' nightlyRerun) =
     Return (Some (''problem renaming development release: rename '' @
                   ''/ws/r1/development/pkg-4.1.0-22-gabc.rpm /ws/r1/development/pkg-4.1.rpm'' @
                   '': no such file or directory'')) \<and>
   trace (snd (linkPackages (simOps True) ''/ws/r1/development'' nightlyRerun)) =
     [ERemove ''/ws/r1/development/pkg-4.1.0-22-gabc.rpm'',
      ERename ''/ws/r1/development/pkg-4.1.0-22-gabc.rpm'' ''/ws/r1/development/pkg-4.1.rpm'']"
  by code_simp

text \<open>
  Claim C4, evaluated. With a file at the version-named destination
  (\<open>nightlyStale\<close>), \<^verbatim>\<open>os.Remove\<close> is not called: the old file is renamed to the
  series name and the new package is not linked. Without such a file
  (\<open>nightlyFresh\<close>), \<^verbatim>\<open>os.Remove\<close> is called on the missing path, the rename of the
  missing path fails, and \<^verbatim>\<open>linkPackages\<close> returns that error with nothing staged.
\<close>

theorem linkPackages_development_build_evaluated:
  "fst (linkPackages (simOps True) ''/ws/r1/development'' nightlyStale) = Return None \<and>
   trace (snd (linkPackages (simOps True) ''/ws/r1/development'' nightlyStale)) =
     [ERename ''/ws/r1/development/pkg-4.1.0-22-gabc.rpm'' ''/ws/r1/development/pkg-4.1.rpm''] \<and>
   sim_files (world (snd (linkPackages (simOps True) ''/ws/r1/development'' nightlyStale))) =
     [(''/in/pkg-4.1.0-22-gabc.rpm'', ''new''), (''/ws/r1/development/pkg-4.1.rpm'', ''old'')] \<and>
   fst (linkPackages (simOps True) ''/ws/r1/development'' nightlyFresh) =
     Return (Some (''problem renaming development release: rename '' @
                   ''/ws/r1/development/pkg-4.1.0-22-gabc.rpm /ws/r1/development/pkg-4.1.rpm'' @
                   '': no such file or directory'')) \<and>
   trace (snd (linkPackages (simOps True) ''/ws/r1/development'' nightlyFresh)) =
     [ERemove ''/ws/r1/development/pkg-4.1.0-22-gabc.rpm'',
      ERename ''/ws/r1/development/pkg-4.1.0-22-gabc.rpm'' ''/ws/r1/development/pkg-4.1.rpm''] \<and>
   sim_files (world (snd (linkPackages (simOps True) ''/ws/r1/development'' nightlyFresh))) =
     [(''/in/pkg-4.1.0-22-gabc.rpm'', ''new'')]"
  by code_simp

subsection \<open>The loop over the remotes and Run\<close>

lemma injectRebuildPush_no_mark:
  "EMarkComplete \<in> set (trace (snd (injectRebuildPush ops d remote local s))) \<longleftrightarrow>
   EMarkComplete \<in> set (trace s)"
  unfolding injectRebuildPush_def
  by (auto split: option.splits prod.splits sum.splits outcome.splits dest!: perform_eq)

lemma getPackageLocation_workingDirs [simp]:
  "getPackageLocation (j\<lparr>workingDirs := w\<rparr>) = getPackageLocation j"
  by (simp add: getPackageLocation_def)

lemma rebuildRemote_cases:
  obtains
    (mkdir) e s1 where
      "fst (os_MkdirAll ops (localOf s r) (world s)) = Some e"
      "rebuildRemote ops d r s =
         (ReturnFromRun, AddError (errors_Wrap e (''problem creating directory '' @ localOf s r)) s1)"
      "Errors (job s1) = Errors (job s)" "trace s1 = trace s @ [EMkdirAll (localOf s r)]"
  | (pull) e s2 where
      "fst (os_MkdirAll ops (localOf s r) (world s)) = None"
      "fst (bucket_Pull ops (filepath_Join (localOf s r) (getPackageLocation (job s)))
              (filepath_Join r (getPackageLocation (job s)))
              (snd (os_MkdirAll ops (localOf s r) (world s)))) = Some e"
      "rebuildRemote ops d r s =
         (ReturnFromRun,
          AddError (errors_Wrap e (''problem syncing from '' @ r @ '' to '' @ localOf s r)) s2)"
      "Errors (job s2) = Errors (job s)"
      "trace s2 = trace s @ [EMkdirAll (localOf s r),
                             EPull (filepath_Join (localOf s r) (getPackageLocation (job s)))
                                   (filepath_Join r (getPackageLocation (job s)))]"
  | (inject) s2 where
      "fst (os_MkdirAll ops (localOf s r) (world s)) = None"
      "fst (bucket_Pull ops (filepath_Join (localOf s r) (getPackageLocation (job s)))
              (filepath_Join r (getPackageLocation (job s)))
              (snd (os_MkdirAll ops (localOf s r) (world s)))) = None"
      "rebuildRemote ops d r s = injectRebuildPush ops d r (localOf s r) s2"
      "Errors (job s2) = Errors (job s)"
      "getPackageLocation (job s2) = getPackageLocation (job s)"
      "trace s2 = trace s @ [EMkdirAll (localOf s r),
                             EPull (filepath_Join (localOf s r) (getPackageLocation (job s)))
                                   (filepath_Join r (getPackageLocation (job s)))]"
proof -
  let ?sa = "s\<lparr>job := (job s)\<lparr>workingDirs := workingDirs (job s) @ [r]\<rparr>\<rparr>"
  let ?loc = "getPackageLocation (job s)"
  let ?s0 = "grip_log Debug
               ((''message'', ''rebuilding repo'') #
                [(''repo'', Name d), (''version'', VersionString (release (job ?sa))), (''remote'', r)] @
                [(''bucket'', fmt_bucket ops (s3Options (job ?sa) d))]) ?sa"
  obtain r1 s1 where p1: "perform (EMkdirAll (localOf s r)) (os_MkdirAll ops (localOf s r)) ?s0 = (r1, s1)"
    by (cases "perform (EMkdirAll (localOf s r)) (os_MkdirAll ops (localOf s r)) ?s0")
  then have f1: "r1 = fst (os_MkdirAll ops (localOf s r) (world s))"
      "world s1 = snd (os_MkdirAll ops (localOf s r) (world s))"
      "job s1 = job ?sa" "trace s1 = trace s @ [EMkdirAll (localOf s r)]"
    by (auto dest!: perform_eq)
  let ?s1' = "grip_log Debug
                ((''message'', ''downloading package'') #
                 [(''repo'', Name d), (''version'', VersionString (release (job ?sa))), (''remote'', r)] @
                 [(''local'', localOf s r)]) s1"
  obtain r2 s2 where p2: "perform (EPull (filepath_Join (localOf s r) ?loc) (filepath_Join r ?loc))
        (bucket_Pull ops (filepath_Join (localOf s r) ?loc) (filepath_Join r ?loc)) ?s1' = (r2, s2)"
    by (cases "perform (EPull (filepath_Join (localOf s r) ?loc) (filepath_Join r ?loc))
        (bucket_Pull ops (filepath_Join (localOf s r) ?loc) (filepath_Join r ?loc)) ?s1'")
  then have f2: "r2 = fst (bucket_Pull ops (filepath_Join (localOf s r) ?loc) (filepath_Join r ?loc)
                        (snd (os_MkdirAll ops (localOf s r) (world s))))"
      "job s2 = job ?sa"
      "trace s2 = trace s @ [EMkdirAll (localOf s r),
                             EPull (filepath_Join (localOf s r) ?loc) (filepath_Join r ?loc)]"
    using f1 by (auto dest!: perform_eq)
  have def: "rebuildRemote ops d r s =
     (case r1 of
        Some e \<Rightarrow> (ReturnFromRun, AddError (errors_Wrap e (''problem creating directory '' @ localOf s r)) s1)
      | None \<Rightarrow>
         (case r2 of
            Some e \<Rightarrow> (ReturnFromRun,
                       AddError (errors_Wrap e (''problem syncing from '' @ r @ '' to '' @ localOf s r)) s2)
          | None \<Rightarrow> injectRebuildPush ops d r (localOf s r) s2))"
    using p1 p2 by (simp add: rebuildRemote_def Let_def localOf_def split: option.splits)
  show thesis
  proof (cases r1)
    case (Some e)
    then show thesis using mkdir[of e s1] def f1 by simp
  next
    case None
    note n1 = this
    show thesis
    proof (cases r2)
      case (Some e)
      then show thesis using pull[of e s2] def f1 f2 n1 by simp
    next
      case None
      then show thesis using inject[of s2] def f1 f2 n1 by simp
    qed
  qed
qed

lemma rebuildRemote_no_mark:
  "EMarkComplete \<in> set (trace (snd (rebuildRemote ops d r s))) \<longleftrightarrow> EMarkComplete \<in> set (trace s)"
proof (cases rule: rebuildRemote_cases[of ops s r d])
  case (mkdir e s1)
  then show ?thesis by simp
next
  case (pull e s2)
  then show ?thesis by simp
next
  case (inject s2)
  then show ?thesis using injectRebuildPush_no_mark[of ops d r "localOf s r" s2] by simp
qed

lemma rebuildRemotes_no_mark:
  "EMarkComplete \<in> set (trace (snd (rebuildRemotes ops d rs s))) \<longleftrightarrow> EMarkComplete \<in> set (trace s)"
proof (induction rs arbitrary: s)
  case Nil
  then show ?case by simp
next
  case (Cons r rs)
  obtain fl s' where x: "rebuildRemote ops d r s = (fl, s')" by (cases "rebuildRemote ops d r s")
  from rebuildRemote_no_mark[of ops d r s] x
  have e: "EMarkComplete \<in> set (trace s') \<longleftrightarrow> EMarkComplete \<in> set (trace s)" by simp
  show ?case using x e Cons.IH[of s'] by (cases fl) simp_all
qed

text \<open>
  Claim C1, at a concrete input: two remotes, the pull of the first one fails and the
  pull of the second one would succeed. \<^verbatim>\<open>Run\<close> records the one error and returns;
  nothing is pulled, injected, rebuilt or pushed for the second remote.
\<close>

theorem Run_first_pull_fails_second_remote_skipped:
  "fst (bucket_Pull (simOps True) ''/ws/r2/4.0'' ''r2/4.0'' (world (twoRemotes [(''r1/4.0'', ''timeout'')]))) = None \<and>
   fst (Run (simOps True) (twoRemotes [(''r1/4.0'', ''timeout'')])) = Return () \<and>
   Errors (job (snd (Run (simOps True) (twoRemotes [(''r1/4.0'', ''timeout'')])))) =
     [''problem syncing from r1 to /ws/r1: timeout''] \<and>
   trace (snd (Run (simOps True) (twoRemotes [(''r1/4.0'', ''timeout'')]))) =
     [ENewS3Bucket (s3Options (runJob (Some (exampleDistro RPM [''r1'', ''r2''])))
                      (exampleDistro RPM [''r1'', ''r2''])),
      EMkdirAll ''/ws/r1'', EPull ''/ws/r1/4.0'' ''r1/4.0'', EMarkComplete]"
  by code_simp

text \<open>
  Claim C2, evaluated. For the format \<open>tar\<close> the error of \<^verbatim>\<open>setup\<close> is recorded and
  \<^verbatim>\<open>Run\<close> goes on: the bucket is opened, the directory of the first remote created
  and its package location pulled; the call on the nil builder then panics. For a nil
  distro the error is recorded and \<^verbatim>\<open>setup\<close> itself panics on the next line.
\<close>

theorem Run_after_failed_setup_evaluated:
  "fst (Run (simOps True) (start (runJob (Some (exampleDistro ''tar'' [''r1'']))) emptySim)) = Panic \<and>
   Errors (job (snd (Run (simOps True) (start (runJob (Some (exampleDistro ''tar'' [''r1'']))) emptySim)))) =
     [''invalid distro definition '' @ [CHR 0x27] @ ''tar'' @ [CHR 0x27]] \<and>
   trace (snd (Run (simOps True) (start (runJob (Some (exampleDistro ''tar'' [''r1'']))) emptySim))) =
     [ENewS3Bucket (s3Options (runJob (Some (exampleDistro ''tar'' [''r1''])))
                      (exampleDistro ''tar'' [''r1''])),
      EMkdirAll ''/ws/r1'', EPull ''/ws/r1/4.0'' ''r1/4.0'', EMarkComplete] \<and>
   fst (Run (simOps True) (start (runJob None) emptySim)) = Panic \<and>
   Errors (job (snd (Run (simOps True) (start (runJob None) emptySim)))) =
     [''invalid job definition, missing distro''] \<and>
   trace (snd (Run (simOps True) (start (runJob None) emptySim))) = []"
  by code_simp

text \<open>
  Claim C3, evaluated. When the bucket cannot be opened, \<^verbatim>\<open>Run\<close> records the error
  and returns before \<^verbatim>\<open>defer j.MarkComplete()\<close> is reached: the job is not marked
  complete.
\<close>

theorem Run_failed_bucket_not_marked_complete:
  "fst (Run (simOps True)
          (start (runJob (Some (exampleDistro RPM [''r1''])))
             (emptySim\<lparr>sim_bucket := Some ''no credentials''\<rparr>))) = Return () \<and>
   Errors (job (snd (Run (simOps True)
          (start (runJob (Some (exampleDistro RPM [''r1''])))
             (emptySim\<lparr>sim_bucket := Some ''no credentials''\<rparr>))))) =
     [''problem getting s3 bucket repo-bucket: no credentials''] \<and>
   Completed (job (snd (Run (simOps True)
          (start (runJob (Some (exampleDistro RPM [''r1''])))
             (emptySim\<lparr>sim_bucket := Some ''no credentials''\<rparr>))))) = False \<and>
   trace (snd (Run (simOps True)
          (start (runJob (Some (exampleDistro RPM [''r1''])))
             (emptySim\<lparr>sim_bucket := Some ''no credentials''\<rparr>)))) =
     [ENewS3Bucket (s3Options (runJob (Some (exampleDistro RPM [''r1''])))
                      (exampleDistro RPM [''r1'']))]"
  by code_simp

lemma setupJob_frame [simp]:
  "world (snd (setupJob s)) = world s" "trace (snd (setupJob s)) = trace s"
  by (simp_all add: setupJob_def setupDEBJob_def setupRPMJob_def split: option.splits)

lemma reportOutcome_proj [simp]:
  "trace (reportOutcome d s) = trace s" "job (reportOutcome d s) = job s"
  by (simp_all add: reportOutcome_def Let_def)

lemma MarkComplete_proj [simp]:
  "trace (MarkComplete s) = trace s @ [EMarkComplete]" "Completed (job (MarkComplete s))"
  by (simp_all add: MarkComplete_def)

lemma Run_marks_complete_once_behind_bucket:
  assumes "fst (setupJob s) = Return ()"
    and "Distro (job (snd (setupJob s))) = Some d"
    and "fst (pail_NewS3Bucket ops (s3Options (job (snd (setupJob s))) d) (world s)) = None"
    and "EMarkComplete \<notin> set (trace s)"
  shows "Completed (job (snd (Run ops s))) \<and> count_list (trace (snd (Run ops s))) EMarkComplete = 1"
proof -
  obtain s1 where s1: "setupJob s = (Return (), s1)"
    using assms(1) by (cases "setupJob s") simp
  then have f1: "world s1 = world s" "trace s1 = trace s" "Distro (job s1) = Some d"
    using assms(2) setupJob_frame[of s] by simp_all
  obtain rb s2 where p: "perform (ENewS3Bucket (s3Options (job s1) d))
                       (pail_NewS3Bucket ops (s3Options (job s1) d)) s1 = (rb, s2)"
    by (cases "perform (ENewS3Bucket (s3Options (job s1) d))
                       (pail_NewS3Bucket ops (s3Options (job s1) d)) s1")
  then have f2: "rb = None" "EMarkComplete \<notin> set (trace s2)"
    using assms(3,4) s1 f1 by (auto dest!: perform_eq)
  obtain fl s3 where l: "rebuildRemotes ops d (Repos d) s2 = (fl, s3)"
    by (cases "rebuildRemotes ops d (Repos d) s2")
  then have f3: "EMarkComplete \<notin> set (trace s3)"
    using f2 rebuildRemotes_no_mark[of ops d "Repos d" s2] by simp
  have "snd (Run ops s) = MarkComplete (case fl of NextRemote \<Rightarrow> reportOutcome d s3 | _ \<Rightarrow> s3)"
    using s1 f1 p f2 l by (cases fl) (simp_all add: Run_def)
  then show ?thesis using f3 by (cases fl) (simp_all add: count_list_0_iff)
qed

lemma settings_simps [simp]:
  "settings (j\<lparr>workingDirs := w\<rparr>) = settings j"
  "settings (j\<lparr>Errors := e\<rparr>) = settings j"
  "settings (j\<lparr>Completed := c\<rparr>) = settings j"
  by (simp_all add: settings_def)

lemma settings_AddError [simp]: "settings (job (AddError e s)) = settings (job s)"
  by (simp add: AddError_def)

lemma settings_eqD:
  "settings j' = settings j \<Longrightarrow>
   Conf j' = Conf j \<and> release j' = release j \<and> Profile j' = Profile j \<and> builder j' = builder j \<and>
   Distro j' = Distro j \<and> getPackageLocation j' = getPackageLocation j \<and>
   s3Options j' d = s3Options j d"
  by (simp add: settings_def getPackageLocation_def s3Options_def)

lemma injectRebuildPush_refines:
  assumes "builder (job s) = Some b"
  shows "fst (injectRebuildPush ops d r local s) =
           flowOf (fst (publishSteps ops d b local (getPackageLocation (job s))
                          (fmt_bucket ops (s3Options (job s) d)) r (world s))) \<and>
         Errors (job (snd (injectRebuildPush ops d r local s))) =
           Errors (job s) @
           errorOf (fst (publishSteps ops d b local (getPackageLocation (job s))
                           (fmt_bucket ops (s3Options (job s) d)) r (world s))) \<and>
         trace (snd (injectRebuildPush ops d r local s)) =
           trace s @
           fst (snd (publishSteps ops d b local (getPackageLocation (job s))
                       (fmt_bucket ops (s3Options (job s) d)) r (world s))) \<and>
         world (snd (injectRebuildPush ops d r local s)) =
           snd (snd (publishSteps ops d b local (getPackageLocation (job s))
                       (fmt_bucket ops (s3Options (job s) d)) r (world s))) \<and>
         settings (job (snd (injectRebuildPush ops d r local s))) = settings (job s)"
proof -
  let ?loc = "getPackageLocation (job s)"
  obtain ri w3 where i: "impl_injectPackage ops b local ?loc (world s) = (ri, w3)"
    by (cases "impl_injectPackage ops b local ?loc (world s)")
  show ?thesis
  proof (cases ri)
    case (Inl e)
    then show ?thesis
      using assms i by (simp add: injectRebuildPush_def publishSteps_def perform_def)
  next
    case (Inr changed)
    obtain rr w4 where rb: "impl_rebuildRepo ops b changed w3 = (rr, w4)"
      by (cases "impl_rebuildRepo ops b changed w3")
    show ?thesis
    proof (cases rr)
      case (Some e)
      then show ?thesis
        using assms i Inr rb by (simp add: injectRebuildPush_def publishSteps_def perform_def)
    next
      case None
      note rrNone = this
      show ?thesis
      proof (cases "publishedSubtree d local changed")
        case Panic
        then show ?thesis
          using assms i Inr rb rrNone by (simp add: injectRebuildPush_def publishSteps_def perform_def)
      next
        case (Return sub)
        show ?thesis
        proof (cases sub)
          case None
          then show ?thesis
            using assms i Inr rb rrNone Return
            by (simp add: injectRebuildPush_def publishSteps_def perform_def)
        next
          case (Some cs)
          obtain component source where cs: "cs = (component, source)" by (cases cs)
          obtain rp w5 where ps: "bucket_Push ops source (filepath_Join r component) w4 = (rp, w5)"
            by (cases "bucket_Push ops source (filepath_Join r component) w4")
          show ?thesis
            using assms i Inr rb rrNone Return Some cs ps
            by (cases rp) (simp_all add: injectRebuildPush_def publishSteps_def perform_def)
        qed
      qed
    qed
  qed
qed

lemma rebuildRemote_refines:
  assumes "builder (job s) = Some b"
  shows "fst (rebuildRemote ops d r s) =
           flowOf (fst (remotePipeline ops d b (WorkSpace (Conf (job s))) (getPackageLocation (job s))
                          (fmt_bucket ops (s3Options (job s) d)) r (world s))) \<and>
         Errors (job (snd (rebuildRemote ops d r s))) =
           Errors (job s) @
           errorOf (fst (remotePipeline ops d b (WorkSpace (Conf (job s))) (getPackageLocation (job s))
                           (fmt_bucket ops (s3Options (job s) d)) r (world s))) \<and>
         trace (snd (rebuildRemote ops d r s)) =
           trace s @
           fst (snd (remotePipeline ops d b (WorkSpace (Conf (job s))) (getPackageLocation (job s))
                       (fmt_bucket ops (s3Options (job s) d)) r (world s))) \<and>
         world (snd (rebuildRemote ops d r s)) =
           snd (snd (remotePipeline ops d b (WorkSpace (Conf (job s))) (getPackageLocation (job s))
                       (fmt_bucket ops (s3Options (job s) d)) r (world s))) \<and>
         settings (job (snd (rebuildRemote ops d r s))) = settings (job s)"
proof -
  let ?ws = "WorkSpace (Conf (job s))" and ?loc = "getPackageLocation (job s)"
  let ?btxt = "fmt_bucket ops (s3Options (job s) d)"
  let ?local = "filepath_Join ?ws r"
  obtain r1 w1 where mk: "os_MkdirAll ops ?local (world s) = (r1, w1)"
    by (cases "os_MkdirAll ops ?local (world s)")
  show ?thesis
  proof (cases r1)
    case (Some e)
    then show ?thesis
      using mk by (simp add: rebuildRemote_def remotePipeline_def Let_def perform_def)
  next
    case None
    note r1None = this
    obtain r2 w2 where pl: "bucket_Pull ops (filepath_Join ?local ?loc) (filepath_Join r ?loc) w1 = (r2, w2)"
      by (cases "bucket_Pull ops (filepath_Join ?local ?loc) (filepath_Join r ?loc) w1")
    show ?thesis
    proof (cases r2)
      case (Some e)
      then show ?thesis
        using mk r1None pl by (simp add: rebuildRemote_def remotePipeline_def Let_def perform_def)
    next
      case None
      obtain s2 where
        eq: "rebuildRemote ops d r s = injectRebuildPush ops d r ?local s2"
        and f: "world s2 = w2" "settings (job s2) = settings (job s)" "Errors (job s2) = Errors (job s)"
          "trace s2 = trace s @ [EMkdirAll ?local, EPull (filepath_Join ?local ?loc) (filepath_Join r ?loc)]"
        using mk r1None pl None
        by (simp add: rebuildRemote_def Let_def perform_def)
      from f(2) assms have b2: "builder (job s2) = Some b"
        and g: "getPackageLocation (job s2) = ?loc" "s3Options (job s2) d = s3Options (job s) d"
        using settings_eqD[of "job s2" "job s" d] by simp_all
      obtain res evs w' where pp: "publishSteps ops d b ?local ?loc ?btxt r w2 = (res, evs, w')"
        by (cases "publishSteps ops d b ?local ?loc ?btxt r w2")
      have rp: "remotePipeline ops d b ?ws ?loc ?btxt r (world s) =
            (res, [EMkdirAll ?local, EPull (filepath_Join ?local ?loc) (filepath_Join r ?loc)] @ evs, w')"
        using mk r1None pl None pp by (simp add: remotePipeline_def)
      from injectRebuildPush_refines[OF b2, of ops d r ?local]
      show ?thesis
        unfolding eq rp using f g pp by simp
    qed
  qed
qed

lemma rebuildRemotes_refines:
  assumes "builder (job s) = Some b"
    and "WorkSpace (Conf (job s)) = ws" and "getPackageLocation (job s) = loc"
    and "fmt_bucket ops (s3Options (job s) d) = btxt"
  shows "fst (rebuildRemotes ops d rs s) = flowOf (fst (remotesInOrder ops d b ws loc btxt rs (world s))) \<and>
         Errors (job (snd (rebuildRemotes ops d rs s))) =
           Errors (job s) @ errorOf (fst (remotesInOrder ops d b ws loc btxt rs (world s))) \<and>
         trace (snd (rebuildRemotes ops d rs s)) =
           trace s @ fst (snd (remotesInOrder ops d b ws loc btxt rs (world s))) \<and>
         world (snd (rebuildRemotes ops d rs s)) =
           snd (snd (remotesInOrder ops d b ws loc btxt rs (world s))) \<and>
         settings (job (snd (rebuildRemotes ops d rs s))) = settings (job s)"
  using assms
proof (induction rs arbitrary: s)
  case Nil
  then show ?case by simp
next
  case (Cons r rs)
  obtain fl s1 where x: "rebuildRemote ops d r s = (fl, s1)" by (cases "rebuildRemote ops d r s")
  obtain res evs w1 where rp: "remotePipeline ops d b ws loc btxt r (world s) = (res, evs, w1)"
    by (cases "remotePipeline ops d b ws loc btxt r (world s)")
  from rebuildRemote_refines[OF Cons.prems(1), of ops d r] x rp Cons.prems
  have one: "fl = flowOf res" "Errors (job s1) = Errors (job s) @ errorOf res"
    "trace s1 = trace s @ evs" "world s1 = w1" "settings (job s1) = settings (job s)"
    by simp_all
  show ?case
  proof (cases res)
    case StepsDone
    from one(5) Cons.prems settings_eqD[of "job s1" "job s" d]
    have pre: "builder (job s1) = Some b" "WorkSpace (Conf (job s1)) = ws"
      "getPackageLocation (job s1) = loc" "fmt_bucket ops (s3Options (job s1) d) = btxt"
      by simp_all
    obtain res' evs' w' where rest: "remotesInOrder ops d b ws loc btxt rs w1 = (res', evs', w')"
      by (cases "remotesInOrder ops d b ws loc btxt rs w1")
    from Cons.IH[OF pre] rest one StepsDone x rp
    show ?thesis by simp
  next
    case (StepFailed e)
    then show ?thesis using one x rp by simp
  next
    case StepPanicked
    then show ?thesis using one x rp by simp
  qed
qed

lemma setupJob_installs:
  assumes "Distro (job s) = Some d" and "installedBuilder (job s) d = Some b"
  shows "fst (setupJob s) = Return ()" and "builder (job (snd (setupJob s))) = Some b"
    and "Errors (job (snd (setupJob s))) = Errors (job s)"
    and "Distro (job (snd (setupJob s))) = Some d"
    and "Conf (job (snd (setupJob s))) = Conf (job s)"
    and "release (job (snd (setupJob s))) = release (job s)"
    and "Profile (job (snd (setupJob s))) = Profile (job s)"
    and "world (snd (setupJob s)) = world s" and "trace (snd (setupJob s)) = trace s"
  using assms
  by (auto simp: setupJob_def installedBuilder_def setupDEBJob_def setupRPMJob_def
           split: option.splits if_splits)

lemma s3Options_builder [simp]: "s3Options (j\<lparr>builder := x\<rparr>) d = s3Options j d"
  by (simp add: s3Options_def)

lemma remotesInOrder_append:
  "remotesInOrder ops d b ws loc btxt (xs @ ys) w =
     (case remotesInOrder ops d b ws loc btxt xs w of
        (StepsDone, evs, w') \<Rightarrow>
          (case remotesInOrder ops d b ws loc btxt ys w' of
             (res, evs', w'') \<Rightarrow> (res, evs @ evs', w''))
      | (StepFailed e, evs, w') \<Rightarrow> (StepFailed e, evs, w')
      | (StepPanicked, evs, w') \<Rightarrow> (StepPanicked, evs, w'))"
proof (induction xs arbitrary: w)
  case Nil
  then show ?case by (simp split: prod.splits)
next
  case (Cons x xs)
  obtain res evs w1 where rp: "remotePipeline ops d b ws loc btxt x w = (res, evs, w1)"
    by (cases "remotePipeline ops d b ws loc btxt x w")
  show ?case
    using rp Cons.IH[of w1]
    by (cases res) (simp_all split: prod.splits pipeline_result.splits)
qed

lemma remotesInOrder_first_failure:
  assumes "fst (remotesInOrder ops d b ws loc btxt before w) = StepsDone"
    and "fst (remotePipeline ops d b ws loc btxt r
                (snd (snd (remotesInOrder ops d b ws loc btxt before w)))) = StepFailed e"
  shows "fst (remotesInOrder ops d b ws loc btxt (before @ r # rest) w) = StepFailed e \<and>
         fst (snd (remotesInOrder ops d b ws loc btxt (before @ r # rest) w)) =
           fst (snd (remotesInOrder ops d b ws loc btxt before w)) @
           fst (snd (remotePipeline ops d b ws loc btxt r
                       (snd (snd (remotesInOrder ops d b ws loc btxt before w)))))"
proof -
  obtain evs0 w0 where a: "remotesInOrder ops d b ws loc btxt before w = (StepsDone, evs0, w0)"
    using assms(1) by (cases "remotesInOrder ops d b ws loc btxt before w") auto
  obtain evs w1 where c: "remotePipeline ops d b ws loc btxt r w0 = (StepFailed e, evs, w1)"
    using assms(2) a by (cases "remotePipeline ops d b ws loc btxt r w0") auto
  show ?thesis
    using a c by (simp add: remotesInOrder_append)
qed

text \<open>
  Claim C1, as the code has it. Once \<^verbatim>\<open>setup\<close> has its builder and the bucket is
  open, \<^verbatim>\<open>Run\<close> does what the remotes' pipelines do one after the other, in the order
  of the list: it returns (or panics where a pipeline panics), the errors of the job
  grow by the error of the one pipeline that failed, if any, the calls made are those
  of the pipelines up to and including the failing one, followed by the completion
  mark, and the world is the one they leave. A failure at any step (directory, pull,
  injection, rebuild, unsupported format, push) is such a failing pipeline, so the
  remotes behind it in the list are not processed: when the remotes \<open>before\<close> have
  run to their ends and the pipeline of \<open>r\<close> fails with \<open>e\<close>, then whatever \<open>rest\<close>
  is, \<^verbatim>\<open>Run\<close> returns with exactly the error \<open>e\<close> added, and its calls are those of
  \<open>before\<close> and of \<open>r\<close>.
\<close>

theorem Run_remotes_in_order:
  assumes "Distro (job s) = Some d" and "installedBuilder (job s) d = Some b"
    and "fst (pail_NewS3Bucket ops (s3Options (job s) d) (world s)) = None"
  shows "fst (Run ops s) =
           outcomeOf (fst (runPipeline ops d b (job s)
                             (snd (pail_NewS3Bucket ops (s3Options (job s) d) (world s))))) \<and>
         Errors (job (snd (Run ops s))) =
           Errors (job s) @
           errorOf (fst (runPipeline ops d b (job s)
                           (snd (pail_NewS3Bucket ops (s3Options (job s) d) (world s))))) \<and>
         trace (snd (Run ops s)) =
           trace s @ [ENewS3Bucket (s3Options (job s) d)] @
           fst (snd (runPipeline ops d b (job s)
                       (snd (pail_NewS3Bucket ops (s3Options (job s) d) (world s))))) @
           [EMarkComplete] \<and>
         world (snd (Run ops s)) =
           snd (snd (runPipeline ops d b (job s)
                       (snd (pail_NewS3Bucket ops (s3Options (job s) d) (world s))))) \<and>
         (Repos d = before @ r # rest \<and>
          fst (remotesInOrder ops d b (WorkSpace (Conf (job s))) (getPackageLocation (job s))
                 (fmt_bucket ops (s3Options (job s) d)) before
                 (snd (pail_NewS3Bucket ops (s3Options (job s) d) (world s)))) = StepsDone \<and>
          fst (remotePipeline ops d b (WorkSpace (Conf (job s))) (getPackageLocation (job s))
                 (fmt_bucket ops (s3Options (job s) d)) r
                 (snd (snd (remotesInOrder ops d b (WorkSpace (Conf (job s)))
                              (getPackageLocation (job s)) (fmt_bucket ops (s3Options (job s) d)) before
                              (snd (pail_NewS3Bucket ops (s3Options (job s) d) (world s))))))) =
            StepFailed e \<longrightarrow>
          fst (Run ops s) = Return () \<and>
          Errors (job (snd (Run ops s))) = Errors (job s) @ [e] \<and>
          trace (snd (Run ops s)) =
            trace s @ [ENewS3Bucket (s3Options (job s) d)] @
            fst (snd (remotesInOrder ops d b (WorkSpace (Conf (job s))) (getPackageLocation (job s))
                        (fmt_bucket ops (s3Options (job s) d)) before
                        (snd (pail_NewS3Bucket ops (s3Options (job s) d) (world s))))) @
            fst (snd (remotePipeline ops d b (WorkSpace (Conf (job s))) (getPackageLocation (job s))
                        (fmt_bucket ops (s3Options (job s) d)) r
                        (snd (snd (remotesInOrder ops d b (WorkSpace (Conf (job s)))
                                     (getPackageLocation (job s)) (fmt_bucket ops (s3Options (job s) d))
                                     before
                                     (snd (pail_NewS3Bucket ops (s3Options (job s) d) (world s)))))))) @
            [EMarkComplete])"
proof -
  let ?w = "snd (pail_NewS3Bucket ops (s3Options (job s) d) (world s))"
  obtain s1 where s1: "setupJob s = (Return (), s1)"
    using setupJob_installs(1)[OF assms(1,2)] by (cases "setupJob s") simp
  from setupJob_installs[OF assms(1,2)] s1
  have f1: "builder (job s1) = Some b" "Errors (job s1) = Errors (job s)" "Distro (job s1) = Some d"
    "Conf (job s1) = Conf (job s)" "release (job s1) = release (job s)" "Profile (job s1) = Profile (job s)"
    "world s1 = world s" "trace s1 = trace s"
    by simp_all
  then have o: "s3Options (job s1) d = s3Options (job s) d"
    and g: "getPackageLocation (job s1) = getPackageLocation (job s)"
    by (simp_all add: s3Options_def getPackageLocation_def)
  obtain rb s2 where p: "perform (ENewS3Bucket (s3Options (job s1) d))
                       (pail_NewS3Bucket ops (s3Options (job s1) d)) s1 = (rb, s2)"
    by (cases "perform (ENewS3Bucket (s3Options (job s1) d))
                       (pail_NewS3Bucket ops (s3Options (job s1) d)) s1")
  then have f2: "rb = None" "job s2 = job s1" "world s2 = ?w"
    "trace s2 = trace s @ [ENewS3Bucket (s3Options (job s) d)]"
    using assms(3) f1 o by (auto dest!: perform_eq)
  have pre: "builder (job s2) = Some b" "WorkSpace (Conf (job s2)) = WorkSpace (Conf (job s))"
    "getPackageLocation (job s2) = getPackageLocation (job s)"
    "fmt_bucket ops (s3Options (job s2) d) = fmt_bucket ops (s3Options (job s) d)"
    using f1 f2 o g by simp_all
  obtain fl s3 where l: "rebuildRemotes ops d (Repos d) s2 = (fl, s3)"
    by (cases "rebuildRemotes ops d (Repos d) s2")
  obtain res evs w' where rp: "runPipeline ops d b (job s) ?w = (res, evs, w')"
    by (cases "runPipeline ops d b (job s) ?w")
  from rebuildRemotes_refines[OF pre, of "Repos d"] l rp f1 f2
  have f3: "fl = flowOf res" "Errors (job s3) = Errors (job s) @ errorOf res"
    "trace s3 = trace s @ [ENewS3Bucket (s3Options (job s) d)] @ evs" "world s3 = w'"
    by (simp_all add: runPipeline_def)
  have run: "Run ops s =
      (case fl of NextRemote \<Rightarrow> (Return (), MarkComplete (reportOutcome d s3))
       | ReturnFromRun \<Rightarrow> (Return (), MarkComplete s3)
       | PanicInRun \<Rightarrow> (Panic, MarkComplete s3))"
    using s1 f1 p f2 l by (simp add: Run_def)
  have m: "Errors (job (MarkComplete s3)) = Errors (job s3)" "world (MarkComplete s3) = world s3"
    "Errors (job (MarkComplete (reportOutcome d s3))) = Errors (job s3)"
    "world (MarkComplete (reportOutcome d s3)) = world s3"
    by (simp_all add: MarkComplete_def reportOutcome_def Let_def)
  have main: "fst (Run ops s) = outcomeOf res \<and>
         Errors (job (snd (Run ops s))) = Errors (job s) @ errorOf res \<and>
         trace (snd (Run ops s)) =
           trace s @ [ENewS3Bucket (s3Options (job s) d)] @ evs @ [EMarkComplete] \<and>
         world (snd (Run ops s)) = w'"
    unfolding run using f3 m by (cases res) simp_all
  have last: "fst (Run ops s) = Return () \<and>
          Errors (job (snd (Run ops s))) = Errors (job s) @ [e] \<and>
          trace (snd (Run ops s)) =
            trace s @ [ENewS3Bucket (s3Options (job s) d)] @
            fst (snd (remotesInOrder ops d b (WorkSpace (Conf (job s))) (getPackageLocation (job s))
                        (fmt_bucket ops (s3Options (job s) d)) before ?w)) @
            fst (snd (remotePipeline ops d b (WorkSpace (Conf (job s))) (getPackageLocation (job s))
                        (fmt_bucket ops (s3Options (job s) d)) r
                        (snd (snd (remotesInOrder ops d b (WorkSpace (Conf (job s)))
                                     (getPackageLocation (job s)) (fmt_bucket ops (s3Options (job s) d))
                                     before ?w))))) @
            [EMarkComplete]"
    if h: "Repos d = before @ r # rest \<and>
          fst (remotesInOrder ops d b (WorkSpace (Conf (job s))) (getPackageLocation (job s))
                 (fmt_bucket ops (s3Options (job s) d)) before ?w) = StepsDone \<and>
          fst (remotePipeline ops d b (WorkSpace (Conf (job s))) (getPackageLocation (job s))
                 (fmt_bucket ops (s3Options (job s) d)) r
                 (snd (snd (remotesInOrder ops d b (WorkSpace (Conf (job s)))
                              (getPackageLocation (job s)) (fmt_bucket ops (s3Options (job s) d)) before
                              ?w)))) = StepFailed e"
  proof -
    from h remotesInOrder_first_failure[of ops d b "WorkSpace (Conf (job s))" "getPackageLocation (job s)"
        "fmt_bucket ops (s3Options (job s) d)" before ?w r e rest]
    have "res = StepFailed e"
      and "evs = fst (snd (remotesInOrder ops d b (WorkSpace (Conf (job s))) (getPackageLocation (job s))
                        (fmt_bucket ops (s3Options (job s) d)) before ?w)) @
            fst (snd (remotePipeline ops d b (WorkSpace (Conf (job s))) (getPackageLocation (job s))
                        (fmt_bucket ops (s3Options (job s) d)) r
                        (snd (snd (remotesInOrder ops d b (WorkSpace (Conf (job s)))
                                     (getPackageLocation (job s)) (fmt_bucket ops (s3Options (job s) d))
                                     before ?w)))))"
      using rp by (simp_all add: runPipeline_def)
    then show ?thesis using main by simp
  qed
  show ?thesis
    unfolding rp using main last by simp
qed

theorem Run_remotes_in_order_witness:
  "Distro (job pushFails) = Some (exampleDistro RPM [''r1'', ''r2'']) \<and>
   installedBuilder (job pushFails) (exampleDistro RPM [''r1'', ''r2'']) = Some RpmBuilder \<and>
   fst (pail_NewS3Bucket (simOps True)
          (s3Options (job pushFails) (exampleDistro RPM [''r1'', ''r2''])) (world pushFails)) = None \<and>
   Repos (exampleDistro RPM [''r1'', ''r2'']) = [] @ ''r1'' # [''r2''] \<and>
   fst (remotesInOrder (simOps True) (exampleDistro RPM [''r1'', ''r2'']) RpmBuilder
          (WorkSpace (Conf (job pushFails))) (getPackageLocation (job pushFails))
          (fmt_bucket (simOps True) (s3Options (job pushFails) (exampleDistro RPM [''r1'', ''r2''])))
          []
          (snd (pail_NewS3Bucket (simOps True)
                  (s3Options (job pushFails) (exampleDistro RPM [''r1'', ''r2''])) (world pushFails)))) =
     StepsDone \<and>
   fst (remotePipeline (simOps True) (exampleDistro RPM [''r1'', ''r2'']) RpmBuilder
          (WorkSpace (Conf (job pushFails))) (getPackageLocation (job pushFails))
          (fmt_bucket (simOps True) (s3Options (job pushFails) (exampleDistro RPM [''r1'', ''r2''])))
          ''r1''
          (snd (pail_NewS3Bucket (simOps True)
                  (s3Options (job pushFails) (exampleDistro RPM [''r1'', ''r2''])) (world pushFails)))) =
     StepFailed ''problem uploading /ws/r1/4.0 to repo-bucket/4.0: denied'' \<and>
   fst (Run (simOps True) pushFails) = Return () \<and>
   Errors (job (snd (Run (simOps True) pushFails))) =
     [''problem uploading /ws/r1/4.0 to repo-bucket/4.0: denied''] \<and>
   trace (snd (Run (simOps True) pushFails)) =
     [ENewS3Bucket (s3Options (job pushFails) (exampleDistro RPM [''r1'', ''r2''])),
      EMkdirAll ''/ws/r1'', EPull ''/ws/r1/4.0'' ''r1/4.0'', EInjectPackage ''/ws/r1'' ''4.0'',
      ERebuildRepo ''/ws/r1/4.0'', EPush ''/ws/r1/4.0'' ''r1/4.0'', EMarkComplete]"
proof -
  let ?d = "exampleDistro RPM [''r1'', ''r2'']"
  let ?ws = "WorkSpace (Conf (job pushFails))" and ?loc = "getPackageLocation (job pushFails)"
  let ?btxt = "fmt_bucket (simOps True) (s3Options (job pushFails) ?d)"
  let ?w = "snd (pail_NewS3Bucket (simOps True) (s3Options (job pushFails) ?d) (world pushFails))"
  let ?e = "''problem uploading /ws/r1/4.0 to repo-bucket/4.0: denied''"
  have d: "Distro (job pushFails) = Some ?d" by code_simp
  have b: "installedBuilder (job pushFails) ?d = Some RpmBuilder" by code_simp
  have k: "fst (pail_NewS3Bucket (simOps True) (s3Options (job pushFails) ?d) (world pushFails)) = None"
    by code_simp
  have h1: "Repos ?d = [] @ ''r1'' # [''r2'']" by (simp add: exampleDistro_def)
  have h2: "fst (remotesInOrder (simOps True) ?d RpmBuilder ?ws ?loc ?btxt [] ?w) = StepsDone"
    and n: "fst (snd (remotesInOrder (simOps True) ?d RpmBuilder ?ws ?loc ?btxt [] ?w)) = []"
      "snd (snd (remotesInOrder (simOps True) ?d RpmBuilder ?ws ?loc ?btxt [] ?w)) = ?w"
    by simp_all
  have h3: "fst (remotePipeline (simOps True) ?d RpmBuilder ?ws ?loc ?btxt ''r1'' ?w) = StepFailed ?e"
    by code_simp
  have v: "fst (snd (remotePipeline (simOps True) ?d RpmBuilder ?ws ?loc ?btxt ''r1'' ?w)) =
       [EMkdirAll ''/ws/r1'', EPull ''/ws/r1/4.0'' ''r1/4.0'', EInjectPackage ''/ws/r1'' ''4.0'',
        ERebuildRepo ''/ws/r1/4.0'', EPush ''/ws/r1/4.0'' ''r1/4.0'']"
    "Errors (job pushFails) = []" "trace pushFails = []"
    by code_simp+
  from h3 have h3': "fst (remotePipeline (simOps True) ?d RpmBuilder ?ws ?loc ?btxt ''r1''
        (snd (snd (remotesInOrder (simOps True) ?d RpmBuilder ?ws ?loc ?btxt [] ?w)))) = StepFailed ?e"
    unfolding n .
  from Run_remotes_in_order[OF d b k, where before = "[]" and r = "''r1''" and rest = "[''r2'']"
      and e = ?e] h1 h2 h3'
  have "fst (Run (simOps True) pushFails) = Return () \<and>
        Errors (job (snd (Run (simOps True) pushFails))) = Errors (job pushFails) @ [?e] \<and>
        trace (snd (Run (simOps True) pushFails)) =
          trace pushFails @ [ENewS3Bucket (s3Options (job pushFails) ?d)] @
          fst (snd (remotesInOrder (simOps True) ?d RpmBuilder ?ws ?loc ?btxt [] ?w)) @
          fst (snd (remotePipeline (simOps True) ?d RpmBuilder ?ws ?loc ?btxt ''r1''
                 (snd (snd (remotesInOrder (simOps True) ?d RpmBuilder ?ws ?loc ?btxt [] ?w))))) @
          [EMarkComplete]"
    by blast
  then have r: "fst (Run (simOps True) pushFails) = Return () \<and>
        Errors (job (snd (Run (simOps True) pushFails))) = [?e] \<and>
        trace (snd (Run (simOps True) pushFails)) =
          [ENewS3Bucket (s3Options (job pushFails) ?d),
           EMkdirAll ''/ws/r1'', EPull ''/ws/r1/4.0'' ''r1/4.0'', EInjectPackage ''/ws/r1'' ''4.0'',
           ERebuildRepo ''/ws/r1/4.0'', EPush ''/ws/r1/4.0'' ''r1/4.0'', EMarkComplete]"
    unfolding n v by simp
  show ?thesis using d b k h1 h2 h3 r by (simp only: simp_thms)
qed

text \<open>Two remotes, the pull of the second one fails: the first remote has made its whole
  pipeline, and the one error is that of the second.\<close>

lemma Run_second_pull_fails_evaluated:
  "fst (Run (simOps True) (twoRemotes [(''r2/4.0'', ''timeout'')])) = Return () \<and>
   Errors (job (snd (Run (simOps True) (twoRemotes [(''r2/4.0'', ''timeout'')])))) =
     [''problem syncing from r2 to /ws/r2: timeout''] \<and>
   tl (trace (snd (Run (simOps True) (twoRemotes [(''r2/4.0'', ''timeout'')])))) =
     [EMkdirAll ''/ws/r1'', EPull ''/ws/r1/4.0'' ''r1/4.0'', EInjectPackage ''/ws/r1'' ''4.0'',
      ERebuildRepo ''/ws/r1/4.0'', EPush ''/ws/r1/4.0'' ''r1/4.0'',
      EMkdirAll ''/ws/r2'', EPull ''/ws/r2/4.0'' ''r2/4.0'', EMarkComplete]"
  by code_simp

text \<open>Runs of two remotes in which a step of the first remote fails: the directory (a
  file is in its place), the injection, the rebuild. Each ends with one error and
  without a call for the second remote.\<close>

lemma Run_step_failures_evaluated:
  "Errors (job (snd (Run (simOps True)
      (start (runJob (Some (exampleDistro RPM [''r1'', ''r2''])))
         (emptySim\<lparr>sim_files := [(''/ws/r1'', ''file'')]\<rparr>))))) =
     [''problem creating directory /ws/r1: mkdir /ws/r1: not a directory''] \<and>
   tl (trace (snd (Run (simOps True)
      (start (runJob (Some (exampleDistro RPM [''r1'', ''r2''])))
         (emptySim\<lparr>sim_files := [(''/ws/r1'', ''file'')]\<rparr>))))) =
     [EMkdirAll ''/ws/r1'', EMarkComplete] \<and>
   Errors (job (snd (Run (simOps True)
      (start (runJob (Some (exampleDistro RPM [''r1'', ''r2''])))
         (emptySim\<lparr>sim_inject := [(''/ws/r1'', ''no packages'')]\<rparr>))))) =
     [''problem copying packages into staging repos: no packages''] \<and>
   tl (trace (snd (Run (simOps True)
      (start (runJob (Some (exampleDistro RPM [''r1'', ''r2''])))
         (emptySim\<lparr>sim_inject := [(''/ws/r1'', ''no packages'')]\<rparr>))))) =
     [EMkdirAll ''/ws/r1'', EPull ''/ws/r1/4.0'' ''r1/4.0'', EInjectPackage ''/ws/r1'' ''4.0'',
      EMarkComplete] \<and>
   Errors (job (snd (Run (simOps True)
      (start (runJob (Some (exampleDistro RPM [''r1'', ''r2''])))
         (emptySim\<lparr>sim_rebuild := [(''/ws/r1/4.0'', ''createrepo failed'')]\<rparr>))))) =
     [''problem building repo in '' @ [CHR 0x27] @ ''/ws/r1/4.0'' @ [CHR 0x27] @ '': createrepo failed''] \<and>
   tl (trace (snd (Run (simOps True)
      (start (runJob (Some (exampleDistro RPM [''r1'', ''r2''])))
         (emptySim\<lparr>sim_rebuild := [(''/ws/r1/4.0'', ''createrepo failed'')]\<rparr>))))) =
     [EMkdirAll ''/ws/r1'', EPull ''/ws/r1/4.0'' ''r1/4.0'', EInjectPackage ''/ws/r1'' ''4.0'',
      ERebuildRepo ''/ws/r1/4.0'', EMarkComplete]"
  by code_simp








lemma logContext_job: "job s' = job s \<Longrightarrow> logContext d s' = logContext d s"
  by (simp add: logContext_def)

lemma overwriteOrRemove_exact:
  "fst (overwriteOrRemove ops d f ext ow args s) =
     args @ (if ow then [''--package-file-suffix'', []] else []) \<and>
   world (snd (overwriteOrRemove ops d f ext ow args s)) = worldAtSigner ops f ext ow (world s)"
  by (simp add: overwriteOrRemove_def worldAtSigner_def perform_def split: prod.splits)

lemma invokeNotaryClient_exact:
  "fst (invokeNotaryClient ops d t f args s) =
     signerResult (fst (exec_CombinedOutput ops args (filepath_Dir f) (world s))) \<and>
   last (logs (snd (invokeNotaryClient ops d t f args s))) =
     signerRecord d s f (fst (exec_CombinedOutput ops args (filepath_Dir f) (world s))) \<and>
   world (snd (invokeNotaryClient ops d t f args s)) =
     snd (exec_CombinedOutput ops args (filepath_Dir f) (world s))"
  by (simp add: invokeNotaryClient_def signerResult_def signerRecord_def perform_def
        grip_WrapError_def grip_log_def logContext_def split: prod.splits option.splits)

lemma runNotaryClient_exact:
  "fst (runNotaryClient ops d (selectedKey ops d s) (selectedToken ops d s) f ext ow s) =
     signerResult (fst (signerRun ops d f ext ow s)) \<and>
   last (logs (snd (runNotaryClient ops d (selectedKey ops d s) (selectedToken ops d s) f ext ow s))) =
     signerRecord d s f (fst (signerRun ops d f ext ow s)) \<and>
   world (snd (runNotaryClient ops d (selectedKey ops d s) (selectedToken ops d s) f ext ow s)) =
     snd (signerRun ops d f ext ow s)"
proof -
  let ?args0 = "notaryArgs (job s) (selectedKey ops d s) (selectedToken ops d s) ext"
  obtain args s' where o: "overwriteOrRemove ops d f ext ow ?args0 (extensionAlerts d ext ow s) = (args, s')"
    by (cases "overwriteOrRemove ops d f ext ow ?args0 (extensionAlerts d ext ow s)")
  from overwriteOrRemove_exact[of ops d f ext ow ?args0 "extensionAlerts d ext ow s"] o
  have a: "args = ?args0 @ (if ow then [''--package-file-suffix'', []] else [])"
    and w: "world s' = worldAtSigner ops f ext ow (world s)"
    by simp_all
  have j: "job s' = job s"
    using overwriteOrRemove_job[of ops d f ext ow ?args0 "extensionAlerts d ext ow s"] o by simp
  have c: "signerRecord d s' f = signerRecord d s f"
    using logContext_job[OF j, of d] by (simp add: signerRecord_def fun_eq_iff split: option.splits)
  have r: "exec_CombinedOutput ops (args @ [filepath_Base f]) (filepath_Dir f) (world s') =
           signerRun ops d f ext ow s"
    using a w by (simp add: signerRun_def signerArgs_def)
  from invokeNotaryClient_exact[of ops d "selectedToken ops d s" f "args @ [filepath_Base f]" s']
  show ?thesis
    using o unfolding r c by (simp add: runNotaryClient_def)
qed

text \<open>
  Claim C5, as the code has it. \<^verbatim>\<open>signFile\<close> never assigns to the job, so the output
  log \<open>Output\<close> is the same after every call. When the call reaches the signer, the
  combined output of that very command goes, trimmed, to the logger only: the last
  log record of the call is the info record of a success or the warning of a failure,
  with the path of the file and the trimmed output, and the call returns nil or the
  wrapped error accordingly.
\<close>

theorem signFile_output_goes_to_log:
  "job (snd (signFile ops f ext ow s)) = job s \<and>
   (Distro (job s) = Some d \<and> selectedToken ops d s \<noteq> [] \<longrightarrow>
      fst (signFile ops f ext ow s) = Return (signerResult (fst (signerRun ops d f ext ow s))) \<and>
      last (logs (snd (signFile ops f ext ow s))) = signerRecord d s f (fst (signerRun ops d f ext ow s)) \<and>
      world (snd (signFile ops f ext ow s)) = snd (signerRun ops d f ext ow s))"
proof (intro conjI impI)
  show "job (snd (signFile ops f ext ow s)) = job s" by simp
next
  assume a: "Distro (job s) = Some d \<and> selectedToken ops d s \<noteq> []"
  then have eq: "signFile ops f ext ow s =
      (Return (fst (runNotaryClient ops d (selectedKey ops d s) (selectedToken ops d s) f ext ow s)),
       snd (runNotaryClient ops d (selectedKey ops d s) (selectedToken ops d s) f ext ow s))"
    by (simp add: signFile_def notaryKeyAndToken_selected split: prod.splits)
  from runNotaryClient_exact[of ops d s f ext ow]
  show "fst (signFile ops f ext ow s) = Return (signerResult (fst (signerRun ops d f ext ow s)))"
    and "last (logs (snd (signFile ops f ext ow s))) = signerRecord d s f (fst (signerRun ops d f ext ow s))"
    and "world (snd (signFile ops f ext ow s)) = snd (signerRun ops d f ext ow s)"
    unfolding eq by simp_all
qed

theorem signFile_output_goes_to_log_witness:
  "Distro (job signedOk) = Some (exampleDistro RPM [''r1'']) \<and>
   selectedToken (simOps True) (exampleDistro RPM [''r1'']) signedOk = ''tok'' \<and>
   fst (signerRun (simOps True) (exampleDistro RPM [''r1'']) ''/ws/r1/4.0/pkg.rpm'' [] True signedOk) =
     ('' signed ok'' @ [CHR 0x0A], None) \<and>
   job (snd (signFile (simOps True) ''/ws/r1/4.0/pkg.rpm'' [] True signedOk)) = job signedOk \<and>
   fst (signFile (simOps True) ''/ws/r1/4.0/pkg.rpm'' [] True signedOk) = Return None \<and>
   last (logs (snd (signFile (simOps True) ''/ws/r1/4.0/pkg.rpm'' [] True signedOk))) =
     (Info, [(''repo'', ''distro''), (''version'', ''4.0.1''), (''message'', ''signed file''),
             (''path'', ''/ws/r1/4.0/pkg.rpm''), (''output'', ''signed ok'')]) \<and>
   Distro (job signerFails) = Some (exampleDistro RPM [''r1'']) \<and>
   selectedToken (simOps True) (exampleDistro RPM [''r1'']) signerFails = ''tok'' \<and>
   fst (signerRun (simOps True) (exampleDistro RPM [''r1'']) ''/ws/r1/4.0/pkg.rpm'' [] True signerFails) =
     (''bad key '', Some ''exit status 1'') \<and>
   fst (signFile (simOps True) ''/ws/r1/4.0/pkg.rpm'' [] True signerFails) =
     Return (Some ''problem with notary service client signing file: exit status 1'') \<and>
   last (logs (snd (signFile (simOps True) ''/ws/r1/4.0/pkg.rpm'' [] True signerFails))) =
     (Warning, [(''error'', ''exit status 1''), (''repo'', ''distro''), (''version'', ''4.0.1''),
                (''message'', ''error signing file''), (''path'', ''/ws/r1/4.0/pkg.rpm''),
                (''output'', ''bad key'')])"
proof -
  let ?d = "exampleDistro RPM [''r1'']" and ?f = "''/ws/r1/4.0/pkg.rpm''"
  have d1: "Distro (job signedOk) = Some ?d" and d2: "Distro (job signerFails) = Some ?d"
    by code_simp+
  have t1: "selectedToken (simOps True) ?d signedOk = ''tok''"
    and t2: "selectedToken (simOps True) ?d signerFails = ''tok''"
    by code_simp+
  then have n1: "selectedToken (simOps True) ?d signedOk \<noteq> []"
    and n2: "selectedToken (simOps True) ?d signerFails \<noteq> []"
    by simp_all
  have r1: "fst (signerRun (simOps True) ?d ?f [] True signedOk) = ('' signed ok'' @ [CHR 0x0A], None)"
    and r2: "fst (signerRun (simOps True) ?d ?f [] True signerFails) = (''bad key '', Some ''exit status 1'')"
    by code_simp+
  have v1: "signerResult ('' signed ok'' @ [CHR 0x0A], None) = None"
    "signerRecord ?d signedOk ?f ('' signed ok'' @ [CHR 0x0A], None) =
       (Info, [(''repo'', ''distro''), (''version'', ''4.0.1''), (''message'', ''signed file''),
               (''path'', ''/ws/r1/4.0/pkg.rpm''), (''output'', ''signed ok'')])"
    "signerResult (''bad key '', Some ''exit status 1'') =
       Some ''problem with notary service client signing file: exit status 1''"
    "signerRecord ?d signerFails ?f (''bad key '', Some ''exit status 1'') =
       (Warning, [(''error'', ''exit status 1''), (''repo'', ''distro''), (''version'', ''4.0.1''),
                  (''message'', ''error signing file''), (''path'', ''/ws/r1/4.0/pkg.rpm''),
                  (''output'', ''bad key'')])"
    by code_simp+
  note A = signFile_output_goes_to_log[where ops = "simOps True" and f = ?f and ext = "[]"
      and ow = True and s = signedOk and d = ?d]
  note B = signFile_output_goes_to_log[where ops = "simOps True" and f = ?f and ext = "[]"
      and ow = True and s = signerFails and d = ?d]
  have a: "job (snd (signFile (simOps True) ?f [] True signedOk)) = job signedOk \<and>
      fst (signFile (simOps True) ?f [] True signedOk) =
        Return (signerResult (fst (signerRun (simOps True) ?d ?f [] True signedOk))) \<and>
      last (logs (snd (signFile (simOps True) ?f [] True signedOk))) =
        signerRecord ?d signedOk ?f (fst (signerRun (simOps True) ?d ?f [] True signedOk))"
    using A d1 n1 by blast
  have b: "fst (signFile (simOps True) ?f [] True signerFails) =
        Return (signerResult (fst (signerRun (simOps True) ?d ?f [] True signerFails))) \<and>
      last (logs (snd (signFile (simOps True) ?f [] True signerFails))) =
        signerRecord ?d signerFails ?f (fst (signerRun (simOps True) ?d ?f [] True signerFails))"
    using B d2 n2 by blast
  show ?thesis
    using d1 d2 t1 t2 r1 r2 a b unfolding r1 r2 v1 by (simp only: simp_thms)
qed

text \<open>
  Claim C8, evaluated on the legacy path: a DEB distro of series 3.0, no key name in
  the environment, \<^verbatim>\<open>NOTARY_TOKEN\<close> set and \<^verbatim>\<open>NOTARY_TOKEN_DEB_LEGACY\<close> not set. The
  call fails without a process or a file operation, and its message says that
  \<^verbatim>\<open>NOTARY_TOKEN\<close> is not defined, which is not the variable that is missing.
\<close>

theorem signFile_legacy_token_missing_evaluated:
  "os_Getenv (simOps True) (world legacyTokenMissing) ''NOTARY_KEY_NAME'' = [] \<and>
   os_Getenv (simOps True) (world legacyTokenMissing) ''NOTARY_TOKEN'' = ''tok'' \<and>
   os_Getenv (simOps True) (world legacyTokenMissing) ''NOTARY_TOKEN_DEB_LEGACY'' = [] \<and>
   fst (signFile (simOps True) ''/ws/r1/3.0/pkg.deb'' ''deb'' False legacyTokenMissing) =
     Return (Some (''the notary service auth token (NOTARY_TOKEN) is not defined in the environment'' @
                   [CHR 0x0A])) \<and>
   trace (snd (signFile (simOps True) ''/ws/r1/3.0/pkg.deb'' ''deb'' False legacyTokenMissing)) = []"
  by code_simp

end
